theory Spec2Isabelle
  imports Main
begin

section \<open>Python values\<close>

text \<open>
  An exception is kept by the text \<open>str(e)\<close> gives for it: every handler of the
  program reads nothing else of the exception it catches.
\<close>

type_synonym exn = string

text \<open>
  The values that travel in dicts (decoded JSON, request payloads, the dicts the adapters
  return).  A dict is the list of its entries in insertion order; \<open>map_of\<close> reads it.
  A number is an integer: the program computes with none, and a fraction would only be
  one more value that is neither a string nor \<open>None\<close>.
\<close>

datatype pyval =
    PNone
  | PBool bool
  | PInt int
  | PStr string
  | PList "pyval list"
  | PDict "(string \<times> pyval) list"

type_synonym pydict = "(string \<times> pyval) list"

text \<open>\<open>d.get(k)\<close>: the value under \<open>k\<close>, \<open>None\<close> when the key is absent.\<close>

definition dict_get :: "pydict \<Rightarrow> string \<Rightarrow> pyval" where
  "dict_get d k = (case map_of d k of None \<Rightarrow> PNone | Some v \<Rightarrow> v)"

text \<open>The apostrophe of the f-strings.\<close>

definition quote :: string where
  "quote = [CHR 0x27]"

section \<open>main.py: the models of the HTTP surface\<close>

record PostContent =
  text' :: string
  platforms :: "string list"
  media_urls :: "string list option"
  schedule_time :: "string option"

record PostResponse =
  success :: bool
  platform :: string
  post_id :: "string option"
  message :: string
  error :: "string option"

text \<open>
  \<open>PostResponse.post_id\<close> is declared \<open>Optional[str]\<close>: the constructor takes \<open>None\<close>
  and a \<open>str\<close> as they are.  What the validation library does with any other value (one
  major version turns numbers into text, the next raises \<open>ValidationError\<close>) is not code
  of this program and is the parameter \<open>other\<close>.
\<close>

definition optional_str :: "(pyval \<Rightarrow> exn + string option) \<Rightarrow> pyval \<Rightarrow> exn + string option" where
  "optional_str other v =
     (case v of PNone \<Rightarrow> Inr None | PStr s \<Rightarrow> Inr (Some s) | _ \<Rightarrow> other v)"

section \<open>main.py: the registry of adapters\<close>

text \<open>
  \<open>create_post(text, media_urls, schedule_time)\<close> of an adapter, as the endpoints see it:
  it runs in the world \<open>'w\<close> (the six adapters' fields, the network), changes it, and
  either raises (\<open>Inl\<close>) or returns a dict.
\<close>

type_synonym 'w create_post =
  "string \<Rightarrow> string list option \<Rightarrow> string option \<Rightarrow> 'w \<Rightarrow> (exn + pydict) \<times> 'w"

record 'w posters =
  facebook_poster :: "'w create_post"
  instagram_poster :: "'w create_post"
  tiktok_poster :: "'w create_post"
  x_poster :: "'w create_post"
  threads_poster :: "'w create_post"
  youtube_poster :: "'w create_post"

definition platform_posters :: "'w posters \<Rightarrow> (string \<times> 'w create_post) list" where
  "platform_posters P =
     [(''facebook'', facebook_poster P),
      (''instagram'', instagram_poster P),
      (''tiktok'', tiktok_poster P),
      (''x'', x_poster P),
      (''threads'', threads_poster P),
      (''youtube'', youtube_poster P)]"

section \<open>main.py: GET /, GET /health, GET /api/platforms\<close>

definition root_supported_platforms :: "string list" where
  "root_supported_platforms =
     [''facebook'', ''instagram'', ''tiktok'', ''x'', ''threads'', ''youtube'']"

record health =
  status' :: string
  timestamp :: string
  platforms_available :: "string list"

text \<open>\<open>now\<close> is what \<open>datetime.now().isoformat()\<close> gives at the call.\<close>

definition health_check :: "'w posters \<Rightarrow> string \<Rightarrow> health" where
  "health_check P now =
     \<lparr>status' = ''healthy'', timestamp = now,
      platforms_available = map fst (platform_posters P)\<rparr>"

text \<open>
  An entry of the catalog.  Its \<open>description\<close> (a sentence in Vietnamese) is left out:
  nothing reads it.
\<close>

record platform_info =
  pid :: string
  name :: string
  supports_media :: bool
  supports_video :: bool
  supports_scheduling :: bool

definition get_supported_platforms :: "platform_info list" where
  "get_supported_platforms =
     [\<lparr>pid = ''facebook'', name = ''Facebook'',
       supports_media = True, supports_video = True, supports_scheduling = True\<rparr>,
      \<lparr>pid = ''instagram'', name = ''Instagram'',
       supports_media = True, supports_video = True, supports_scheduling = True\<rparr>,
      \<lparr>pid = ''tiktok'', name = ''TikTok'',
       supports_media = False, supports_video = True, supports_scheduling = True\<rparr>,
      \<lparr>pid = ''x'', name = ''X (Twitter)'',
       supports_media = True, supports_video = True, supports_scheduling = False\<rparr>,
      \<lparr>pid = ''threads'', name = ''Threads'',
       supports_media = True, supports_video = True, supports_scheduling = False\<rparr>,
      \<lparr>pid = ''youtube'', name = ''YouTube'',
       supports_media = False, supports_video = True, supports_scheduling = True\<rparr>]"

section \<open>main.py: POST /api/post\<close>

definition not_supported :: "string \<Rightarrow> PostResponse" where
  "not_supported p =
     \<lparr>success = False, platform = p, post_id = None,
      message = ''Platform not supported'',
      error = Some (''Platform '' @ quote @ p @ quote @ '' is not supported'')\<rparr>"

definition posted :: "string \<Rightarrow> string option \<Rightarrow> PostResponse" where
  "posted p i =
     \<lparr>success = True, platform = p, post_id = i,
      message = ''Successfully posted to '' @ p, error = None\<rparr>"

definition failed :: "string \<Rightarrow> exn \<Rightarrow> PostResponse" where
  "failed p e =
     \<lparr>success = False, platform = p, post_id = None,
      message = ''Failed to post to '' @ p, error = Some e\<rparr>"

text \<open>
  The body of the \<open>try\<close> with its \<open>except Exception\<close>: the adapter is awaited, then the
  \<open>PostResponse\<close> is built from \<open>post_result.get('post_id')\<close>; whatever either raises
  becomes the failed outcome.
\<close>

definition try_post ::
  "(pyval \<Rightarrow> exn + string option) \<Rightarrow> 'w create_post \<Rightarrow> PostContent \<Rightarrow> string \<Rightarrow> 'w
     \<Rightarrow> PostResponse \<times> 'w" where
  "try_post other poster content p w =
     (case poster (text' content) (media_urls content) (schedule_time content) w of
        (Inl e, w') \<Rightarrow> (failed p e, w')
      | (Inr post_result, w') \<Rightarrow>
          (case optional_str other (dict_get post_result ''post_id'') of
             Inl e \<Rightarrow> (failed p e, w')
           | Inr i \<Rightarrow> (posted p i, w')))"

text \<open>The \<open>for\<close> loop over \<open>content.platforms\<close>, \<open>results\<close> being the list built so far.\<close>

fun post_loop ::
  "(pyval \<Rightarrow> exn + string option) \<Rightarrow> (string \<times> 'w create_post) list \<Rightarrow> PostContent
     \<Rightarrow> string list \<Rightarrow> PostResponse list \<Rightarrow> 'w \<Rightarrow> PostResponse list \<times> 'w" where
  "post_loop other reg content [] results w = (results, w)"
| "post_loop other reg content (p # ps) results w =
     (case map_of reg p of
        None \<Rightarrow> post_loop other reg content ps (results @ [not_supported p]) w
      | Some poster \<Rightarrow>
          (case try_post other poster content p w of
             (r, w') \<Rightarrow> post_loop other reg content ps (results @ [r]) w'))"

definition post_to_platforms ::
  "(pyval \<Rightarrow> exn + string option) \<Rightarrow> 'w posters \<Rightarrow> PostContent \<Rightarrow> 'w
     \<Rightarrow> PostResponse list \<times> 'w" where
  "post_to_platforms other P content w =
     post_loop other (platform_posters P) content (platforms content) [] w"

text \<open>
  The request body of \<open>POST /api/post\<close> by the fields \<open>PostContent\<close> declares, each
  \<open>None\<close> when the key is absent from the JSON object.
\<close>

record post_body =
  body_text :: "string option"
  body_platforms :: "string list option"
  body_media_urls :: "string list option"
  body_schedule_time :: "string option"

text \<open>
  The framework builds \<open>content: PostContent\<close> from the body before the handler runs:
  \<open>text\<close> and \<open>platforms\<close> have no default and are required, the two \<open>Optional\<close>
  fields default to \<open>None\<close>.  \<open>Inl\<close> lists the required fields that are missing.
\<close>

definition PostContent_of_body :: "post_body \<Rightarrow> string list + PostContent" where
  "PostContent_of_body b =
     (case (body_text b, body_platforms b) of
        (Some t, Some ps) \<Rightarrow>
          Inr \<lparr>text' = t, platforms = ps, media_urls = body_media_urls b,
               schedule_time = body_schedule_time b\<rparr>
      | (None, Some ps) \<Rightarrow> Inl [''text'']
      | (Some t, None) \<Rightarrow> Inl [''platforms'']
      | (None, None) \<Rightarrow> Inl [''text'', ''platforms''])"

datatype reply = Unprocessable "string list" | Outcomes "PostResponse list"

text \<open>The endpoint: status code and body of the reply, and the world after the request.\<close>

definition api_post ::
  "(pyval \<Rightarrow> exn + string option) \<Rightarrow> 'w posters \<Rightarrow> post_body \<Rightarrow> 'w \<Rightarrow> (nat \<times> reply) \<times> 'w" where
  "api_post other P b w =
     (case PostContent_of_body b of
        Inl missing \<Rightarrow> ((422, Unprocessable missing), w)
      | Inr content \<Rightarrow>
          (case post_to_platforms other P content w of
             (results, w') \<Rightarrow> ((200, Outcomes results), w')))"



section \<open>The adapters' surroundings\<close>

text \<open>
  Truthiness, \<open>a or b\<close>, and the passage from \<open>Optional[str]\<close> to a value.
\<close>

definition truthy :: "pyval \<Rightarrow> bool" where
  "truthy v =
     (case v of
        PNone \<Rightarrow> False
      | PBool b \<Rightarrow> b
      | PInt i \<Rightarrow> i \<noteq> 0
      | PStr s \<Rightarrow> s \<noteq> []
      | PList l \<Rightarrow> l \<noteq> []
      | PDict d \<Rightarrow> d \<noteq> [])"

definition of_opt :: "string option \<Rightarrow> pyval" where
  "of_opt a = (case a of None \<Rightarrow> PNone | Some s \<Rightarrow> PStr s)"

definition truthy_str :: "string option \<Rightarrow> bool" where
  "truthy_str a = truthy (of_opt a)"

definition or_str :: "string option \<Rightarrow> string option \<Rightarrow> string option" where
  "or_str a b = (if truthy_str a then a else b)"

definition py_or :: "pyval \<Rightarrow> pyval \<Rightarrow> pyval" where
  "py_or a b = (if truthy a then a else b)"

text \<open>The name \<open>type(v).__name__\<close>, for the messages of \<open>AttributeError\<close> and \<open>TypeError\<close>.\<close>

definition type_name :: "pyval \<Rightarrow> string" where
  "type_name v =
     (case v of
        PNone \<Rightarrow> ''NoneType''
      | PBool b \<Rightarrow> ''bool''
      | PInt i \<Rightarrow> ''int''
      | PStr s \<Rightarrow> ''str''
      | PList l \<Rightarrow> ''list''
      | PDict d \<Rightarrow> ''dict'')"

text \<open>
  \<open>v.get(k, default)\<close> on a decoded JSON value: only a dict has the method, on anything
  else the call raises \<open>AttributeError\<close>.
\<close>

definition py_get :: "pyval \<Rightarrow> string \<Rightarrow> pyval \<Rightarrow> exn + pyval" where
  "py_get v k dflt =
     (case v of
        PDict d \<Rightarrow> Inr (case map_of d k of None \<Rightarrow> dflt | Some u \<Rightarrow> u)
      | _ \<Rightarrow> Inl (quote @ type_name v @ quote @ '' object has no attribute '' @
                 quote @ ''get'' @ quote))"

text \<open>
  \<open>v[0]\<close> on a decoded JSON value; the keys of a decoded object are strings, so on a
  dict it raises \<open>KeyError(0)\<close>.
\<close>

definition py_index0 :: "pyval \<Rightarrow> exn + pyval" where
  "py_index0 v =
     (case v of
        PList l \<Rightarrow> (case l of [] \<Rightarrow> Inl ''list index out of range'' | u # _ \<Rightarrow> Inr u)
      | PStr s \<Rightarrow> (case s of [] \<Rightarrow> Inl ''string index out of range'' | c # _ \<Rightarrow> Inr (PStr [c]))
      | PDict d \<Rightarrow> Inl ''0''
      | _ \<Rightarrow> Inl (quote @ type_name v @ quote @ '' object is not subscriptable''))"

text \<open>\<open>v.get(k1, {}).get(k2, default)\<close>.\<close>

definition py_get2 :: "pyval \<Rightarrow> string \<Rightarrow> string \<Rightarrow> pyval \<Rightarrow> exn + pyval" where
  "py_get2 v k1 k2 dflt =
     (case py_get v k1 (PDict []) of Inl e \<Rightarrow> Inl e | Inr u \<Rightarrow> py_get u k2 dflt)"

text \<open>
  A dict display whose values are computed by expressions that may raise: they are
  evaluated in the order written and the first exception leaves the display.
\<close>

fun dict_of :: "(string \<times> (exn + pyval)) list \<Rightarrow> exn + pydict" where
  "dict_of [] = Inr []"
| "dict_of ((k, Inl e) # rest) = Inl e"
| "dict_of ((k, Inr v) # rest) =
     (case dict_of rest of Inl e \<Rightarrow> Inl e | Inr d \<Rightarrow> Inr ((k, v) # d))"

text \<open>
  \<open>additional_params and k in additional_params\<close>, and \<open>additional_params[k]\<close> where
  that holds.
\<close>

definition has_key :: "pydict option \<Rightarrow> string \<Rightarrow> bool" where
  "has_key ap k = (case ap of None \<Rightarrow> False | Some d \<Rightarrow> d \<noteq> [] \<and> map_of d k \<noteq> None)"

definition subscript :: "pydict option \<Rightarrow> string \<Rightarrow> pyval" where
  "subscript ap k = (case ap of None \<Rightarrow> PNone | Some d \<Rightarrow> dict_get d k)"

text \<open>
  An HTTP request as the adapters build it with \<open>session.get\<close>, \<open>session.post\<close>, and the
  response as they read it: its status and what \<open>await response.json()\<close> gives, a decoded
  value or an exception.
\<close>

record request =
  verb :: string
  url :: string
  params :: pydict
  headers :: pydict
  data :: pyval
  json_payload :: pyval

record response =
  status :: nat
  json :: "exn + pyval"

text \<open>
  What the program finds around it: the process environment read by \<open>os.getenv\<close>, the
  network (a request is answered or the client raises), and the text \<open>str\<close> gives for a
  value that is not a string, as the f-strings print it.
\<close>

record world =
  getenv :: "string \<Rightarrow> string option"
  http :: "request \<Rightarrow> exn + response"
  str :: "pyval \<Rightarrow> string"

definition py_str :: "world \<Rightarrow> pyval \<Rightarrow> string" where
  "py_str W v =
     (case v of
        PStr s \<Rightarrow> s
      | PNone \<Rightarrow> ''None''
      | PBool b \<Rightarrow> (if b then ''True'' else ''False'')
      | _ \<Rightarrow> str W v)"

section \<open>platforms/base\_poster.py\<close>

record BasePoster =
  platform_name :: string
  access_token :: "string option"
  api_key :: "string option"
  api_secret :: "string option"
  authenticated :: bool

text \<open>
  The handler every \<open>authenticate\<close> ends with:
  \<open>except Exception as e: self.authenticated = False; raise Exception(f"... error: {str(e)}")\<close>.
\<close>

definition authentication_error ::
  "string \<Rightarrow> exn \<Rightarrow> 'a BasePoster_scheme \<Rightarrow> (exn + pydict) \<times> 'a BasePoster_scheme" where
  "authentication_error prefix e self = (Inl (prefix @ e), self\<lparr>authenticated := False\<rparr>)"

section \<open>platforms/facebook\_api.py\<close>

record FacebookPoster = BasePoster +
  graph_api_url :: string
  page_id :: pyval

definition FacebookPoster_init :: "world \<Rightarrow> FacebookPoster" where
  "FacebookPoster_init W =
     \<lparr>platform_name = ''facebook'', access_token = None, api_key = None, api_secret = None,
      authenticated = False,
      graph_api_url = ''https://graph.facebook.com/v18.0'',
      page_id = of_opt (getenv W ''FACEBOOK_PAGE_ID'')\<rparr>"

text \<open>The assignments that open the \<open>try\<close> block of \<open>authenticate\<close>.\<close>

definition FacebookPoster_credentials ::
  "world \<Rightarrow> string option \<Rightarrow> pydict option \<Rightarrow> FacebookPoster \<Rightarrow> FacebookPoster" where
  "FacebookPoster_credentials W token additional_params self =
     (let self1 = self\<lparr>access_token := or_str token (getenv W ''FACEBOOK_ACCESS_TOKEN'')\<rparr>
      in if has_key additional_params ''page_id''
         then self1\<lparr>page_id := subscript additional_params ''page_id''\<rparr>
         else self1\<lparr>page_id := py_or (page_id self1) (of_opt (getenv W ''FACEBOOK_PAGE_ID''))\<rparr>)"

text \<open>The test call to \<open>/me\<close>.\<close>

definition FacebookPoster_me :: "FacebookPoster \<Rightarrow> request" where
  "FacebookPoster_me self =
     \<lparr>verb = ''GET'', url = graph_api_url self @ ''/me'',
      params = [(''access_token'', of_opt (access_token self))],
      headers = [], data = PNone, json_payload = PNone\<rparr>"

text \<open>The verification: the test call and the reading of its response.\<close>

definition FacebookPoster_verify ::
  "world \<Rightarrow> FacebookPoster \<Rightarrow> (exn + pydict) \<times> FacebookPoster" where
  "FacebookPoster_verify W self =
     (case http W (FacebookPoster_me self) of
        Inl e \<Rightarrow> (Inl e, self)
      | Inr response \<Rightarrow>
          if status response = 200
          then
            (case json response of
               Inl e \<Rightarrow> (Inl e, self)
             | Inr user_data \<Rightarrow>
                 (dict_of [(''authenticated'', Inr (PBool True)),
                           (''user_id'', py_get user_data ''id'' PNone),
                           (''user_name'', py_get user_data ''name'' PNone)],
                  self\<lparr>authenticated := True\<rparr>))
          else
            (case json response of
               Inl e \<Rightarrow> (Inl e, self)
             | Inr error_data \<Rightarrow>
                 (Inl (''Authentication failed: '' @ py_str W error_data), self)))"

definition FacebookPoster_authenticate ::
  "world \<Rightarrow> string option \<Rightarrow> string option \<Rightarrow> string option \<Rightarrow> pydict option
     \<Rightarrow> FacebookPoster \<Rightarrow> (exn + pydict) \<times> FacebookPoster" where
  "FacebookPoster_authenticate W token key secret additional_params self =
     (case (let self1 = FacebookPoster_credentials W token additional_params self
            in if \<not> truthy_str (access_token self1)
               then (Inl ''Facebook access token is required'', self1)
               else FacebookPoster_verify W self1) of
        (Inl e, self') \<Rightarrow> authentication_error ''Facebook authentication error: '' e self'
      | (Inr d, self') \<Rightarrow> (Inr d, self'))"

text \<open>The dict \<open>post_data\<close> of \<open>create_post\<close>, in the order its keys are set.\<close>

definition FacebookPoster_post_data ::
  "string \<Rightarrow> string list option \<Rightarrow> string option \<Rightarrow> FacebookPoster \<Rightarrow> pydict" where
  "FacebookPoster_post_data text media_urls' schedule_time' self =
     [(''message'', PStr text), (''access_token'', of_opt (access_token self))]
     @ (case media_urls' of
          None \<Rightarrow> []
        | Some urls \<Rightarrow>
            (case urls of
               [] \<Rightarrow> []
             | [u] \<Rightarrow> [(''link'', PStr u)]
             | _ \<Rightarrow> [(''attached_media'', PList (map PStr urls))]))
     @ (if truthy_str schedule_time'
        then [(''published'', PBool False),
              (''scheduled_publish_time'', of_opt schedule_time')]
        else [])"

definition FacebookPoster_endpoint :: "world \<Rightarrow> FacebookPoster \<Rightarrow> string" where
  "FacebookPoster_endpoint W self =
     (if truthy (page_id self) then py_str W (page_id self) @ ''/feed'' else ''me/feed'')"

text \<open>The \<open>try\<close> block of \<open>create_post\<close> once the adapter is authenticated.\<close>

definition FacebookPoster_publish ::
  "world \<Rightarrow> string \<Rightarrow> string list option \<Rightarrow> string option \<Rightarrow> FacebookPoster \<Rightarrow> exn + pydict" where
  "FacebookPoster_publish W text media_urls' schedule_time' self =
     (case http W
             \<lparr>verb = ''POST'',
              url = graph_api_url self @ ''/'' @ FacebookPoster_endpoint W self,
              params = [], headers = [],
              data = PDict (FacebookPoster_post_data text media_urls' schedule_time' self),
              json_payload = PNone\<rparr> of
        Inl e \<Rightarrow> Inl e
      | Inr response \<Rightarrow>
          if status response \<in> {200, 201}
          then
            (case json response of
               Inl e \<Rightarrow> Inl e
             | Inr result \<Rightarrow>
                 dict_of [(''post_id'', py_get result ''id'' PNone),
                          (''success'', Inr (PBool True)),
                          (''platform'', Inr (PStr ''facebook''))])
          else
            (case json response of
               Inl e \<Rightarrow> Inl e
             | Inr error_data \<Rightarrow> Inl (''Post failed: '' @ py_str W error_data)))"

definition FacebookPoster_create_post ::
  "world \<Rightarrow> string \<Rightarrow> string list option \<Rightarrow> string option \<Rightarrow> FacebookPoster
     \<Rightarrow> (exn + pydict) \<times> FacebookPoster" where
  "FacebookPoster_create_post W text media_urls' schedule_time' self =
     (case (if \<not> authenticated self
            then FacebookPoster_authenticate W None None None None self
            else (Inr [], self)) of
        (Inl e, self') \<Rightarrow> (Inl (''Facebook post error: '' @ e), self')
      | (Inr _, self') \<Rightarrow>
          (case FacebookPoster_publish W text media_urls' schedule_time' self' of
             Inl e \<Rightarrow> (Inl (''Facebook post error: '' @ e), self')
           | Inr d \<Rightarrow> (Inr d, self')))"

section \<open>platforms/instagram\_api.py\<close>

record InstagramPoster = BasePoster +
  graph_api_url_ig :: string
  instagram_account_id :: pyval

definition InstagramPoster_init :: "world \<Rightarrow> InstagramPoster" where
  "InstagramPoster_init W =
     \<lparr>platform_name = ''instagram'', access_token = None, api_key = None, api_secret = None,
      authenticated = False,
      graph_api_url_ig = ''https://graph.facebook.com/v18.0'',
      instagram_account_id = of_opt (getenv W ''INSTAGRAM_ACCOUNT_ID'')\<rparr>"

definition InstagramPoster_credentials ::
  "world \<Rightarrow> string option \<Rightarrow> pydict option \<Rightarrow> InstagramPoster \<Rightarrow> InstagramPoster" where
  "InstagramPoster_credentials W token additional_params self =
     (let self1 = self\<lparr>access_token := or_str token (getenv W ''INSTAGRAM_ACCESS_TOKEN'')\<rparr>
      in if has_key additional_params ''instagram_account_id''
         then self1\<lparr>instagram_account_id := subscript additional_params ''instagram_account_id''\<rparr>
         else self1\<lparr>instagram_account_id :=
                       py_or (instagram_account_id self1)
                             (of_opt (getenv W ''INSTAGRAM_ACCOUNT_ID''))\<rparr>)"

definition InstagramPoster_account :: "world \<Rightarrow> InstagramPoster \<Rightarrow> request" where
  "InstagramPoster_account W self =
     \<lparr>verb = ''GET'',
      url = graph_api_url_ig self @ ''/'' @ py_str W (instagram_account_id self),
      params = [(''fields'', PStr ''id,username,account_type''),
                (''access_token'', of_opt (access_token self))],
      headers = [], data = PNone, json_payload = PNone\<rparr>"

definition InstagramPoster_verify ::
  "world \<Rightarrow> InstagramPoster \<Rightarrow> (exn + pydict) \<times> InstagramPoster" where
  "InstagramPoster_verify W self =
     (case http W (InstagramPoster_account W self) of
        Inl e \<Rightarrow> (Inl e, self)
      | Inr response \<Rightarrow>
          if status response = 200
          then
            (case json response of
               Inl e \<Rightarrow> (Inl e, self)
             | Inr account_data \<Rightarrow>
                 (dict_of [(''authenticated'', Inr (PBool True)),
                           (''account_id'', py_get account_data ''id'' PNone),
                           (''username'', py_get account_data ''username'' PNone),
                           (''account_type'', py_get account_data ''account_type'' PNone)],
                  self\<lparr>authenticated := True\<rparr>))
          else
            (case json response of
               Inl e \<Rightarrow> (Inl e, self)
             | Inr error_data \<Rightarrow>
                 (Inl (''Authentication failed: '' @ py_str W error_data), self)))"

definition InstagramPoster_authenticate ::
  "world \<Rightarrow> string option \<Rightarrow> string option \<Rightarrow> string option \<Rightarrow> pydict option
     \<Rightarrow> InstagramPoster \<Rightarrow> (exn + pydict) \<times> InstagramPoster" where
  "InstagramPoster_authenticate W token key secret additional_params self =
     (case (let self1 = InstagramPoster_credentials W token additional_params self
            in if \<not> truthy_str (access_token self1) \<or> \<not> truthy (instagram_account_id self1)
               then (Inl ''Instagram access token and account ID are required'', self1)
               else InstagramPoster_verify W self1) of
        (Inl e, self') \<Rightarrow> authentication_error ''Instagram authentication error: '' e self'
      | (Inr d, self') \<Rightarrow> (Inr d, self'))"



section \<open>platforms/threads\_api.py\<close>

record ThreadsPoster = BasePoster +
  graph_api_url_th :: string
  threads_user_id :: pyval

definition ThreadsPoster_init :: "world \<Rightarrow> ThreadsPoster" where
  "ThreadsPoster_init W =
     \<lparr>platform_name = ''threads'', access_token = None, api_key = None, api_secret = None,
      authenticated = False,
      graph_api_url_th = ''https://graph.threads.net/v1.0'',
      threads_user_id = of_opt (getenv W ''THREADS_USER_ID'')\<rparr>"

definition ThreadsPoster_credentials ::
  "world \<Rightarrow> string option \<Rightarrow> pydict option \<Rightarrow> ThreadsPoster \<Rightarrow> ThreadsPoster" where
  "ThreadsPoster_credentials W token additional_params self =
     (let self1 = self\<lparr>access_token := or_str token (getenv W ''THREADS_ACCESS_TOKEN'')\<rparr>
      in if has_key additional_params ''threads_user_id''
         then self1\<lparr>threads_user_id := subscript additional_params ''threads_user_id''\<rparr>
         else self1\<lparr>threads_user_id :=
                       py_or (threads_user_id self1) (of_opt (getenv W ''THREADS_USER_ID''))\<rparr>)"

definition ThreadsPoster_user :: "world \<Rightarrow> ThreadsPoster \<Rightarrow> request" where
  "ThreadsPoster_user W self =
     \<lparr>verb = ''GET'',
      url = graph_api_url_th self @ ''/'' @ py_str W (threads_user_id self),
      params = [(''fields'', PStr ''id,username,threads_profile_picture_url''),
                (''access_token'', of_opt (access_token self))],
      headers = [], data = PNone, json_payload = PNone\<rparr>"

definition ThreadsPoster_verify ::
  "world \<Rightarrow> ThreadsPoster \<Rightarrow> (exn + pydict) \<times> ThreadsPoster" where
  "ThreadsPoster_verify W self =
     (case http W (ThreadsPoster_user W self) of
        Inl e \<Rightarrow> (Inl e, self)
      | Inr response \<Rightarrow>
          if status response = 200
          then
            (case json response of
               Inl e \<Rightarrow> (Inl e, self)
             | Inr user_data \<Rightarrow>
                 (dict_of [(''authenticated'', Inr (PBool True)),
                           (''user_id'', py_get user_data ''id'' PNone),
                           (''username'', py_get user_data ''username'' PNone)],
                  self\<lparr>authenticated := True\<rparr>))
          else
            (case json response of
               Inl e \<Rightarrow> (Inl e, self)
             | Inr error_data \<Rightarrow>
                 (Inl (''Authentication failed: '' @ py_str W error_data), self)))"

definition ThreadsPoster_authenticate ::
  "world \<Rightarrow> string option \<Rightarrow> string option \<Rightarrow> string option \<Rightarrow> pydict option
     \<Rightarrow> ThreadsPoster \<Rightarrow> (exn + pydict) \<times> ThreadsPoster" where
  "ThreadsPoster_authenticate W token key secret additional_params self =
     (case (let self1 = ThreadsPoster_credentials W token additional_params self
            in if \<not> truthy_str (access_token self1) \<or> \<not> truthy (threads_user_id self1)
               then (Inl ''Threads access token and user ID are required'', self1)
               else ThreadsPoster_verify W self1) of
        (Inl e, self') \<Rightarrow> authentication_error ''Threads authentication error: '' e self'
      | (Inr d, self') \<Rightarrow> (Inr d, self'))"



section \<open>platforms/tiktok\_api.py\<close>

record TikTokPoster = BasePoster +
  api_url_tt :: string
  client_key :: "string option"
  client_secret :: "string option"

definition TikTokPoster_init :: "world \<Rightarrow> TikTokPoster" where
  "TikTokPoster_init W =
     \<lparr>platform_name = ''tiktok'', access_token = None, api_key = None, api_secret = None,
      authenticated = False,
      api_url_tt = ''https://open.tiktokapis.com/v2'',
      client_key = getenv W ''TIKTOK_CLIENT_KEY'',
      client_secret = getenv W ''TIKTOK_CLIENT_SECRET''\<rparr>"

definition TikTokPoster_credentials ::
  "world \<Rightarrow> string option \<Rightarrow> string option \<Rightarrow> string option \<Rightarrow> TikTokPoster \<Rightarrow> TikTokPoster" where
  "TikTokPoster_credentials W token key secret self =
     self\<lparr>access_token := or_str token (getenv W ''TIKTOK_ACCESS_TOKEN''),
          client_key := or_str key (client_key self),
          client_secret := or_str secret (client_secret self)\<rparr>"

definition TikTokPoster_user_info :: "world \<Rightarrow> TikTokPoster \<Rightarrow> request" where
  "TikTokPoster_user_info W self =
     \<lparr>verb = ''GET'', url = api_url_tt self @ ''/user/info/'',
      params = [(''fields'', PStr ''open_id,union_id,avatar_url,display_name'')],
      headers = [(''Authorization'', PStr (''Bearer '' @ py_str W (of_opt (access_token self)))),
                 (''Content-Type'', PStr ''application/json'')],
      data = PNone, json_payload = PNone\<rparr>"

definition TikTokPoster_verify ::
  "world \<Rightarrow> TikTokPoster \<Rightarrow> (exn + pydict) \<times> TikTokPoster" where
  "TikTokPoster_verify W self =
     (case http W (TikTokPoster_user_info W self) of
        Inl e \<Rightarrow> (Inl e, self)
      | Inr response \<Rightarrow>
          if status response = 200
          then
            (case json response of
               Inl e \<Rightarrow> (Inl e, self)
             | Inr result \<Rightarrow>
                 (case py_get2 result ''data'' ''user'' (PDict []) of
                    Inl e \<Rightarrow> (Inl e, self)
                  | Inr user_data \<Rightarrow>
                      (dict_of [(''authenticated'', Inr (PBool True)),
                                (''open_id'', py_get user_data ''open_id'' PNone),
                                (''display_name'', py_get user_data ''display_name'' PNone)],
                       self\<lparr>authenticated := True\<rparr>)))
          else
            (case json response of
               Inl e \<Rightarrow> (Inl e, self)
             | Inr error_data \<Rightarrow>
                 (Inl (''Authentication failed: '' @ py_str W error_data), self)))"

definition TikTokPoster_authenticate ::
  "world \<Rightarrow> string option \<Rightarrow> string option \<Rightarrow> string option \<Rightarrow> pydict option
     \<Rightarrow> TikTokPoster \<Rightarrow> (exn + pydict) \<times> TikTokPoster" where
  "TikTokPoster_authenticate W token key secret additional_params self =
     (case (let self1 = TikTokPoster_credentials W token key secret self
            in if \<not> truthy_str (access_token self1)
               then (Inl ''TikTok access token is required'', self1)
               else TikTokPoster_verify W self1) of
        (Inl e, self') \<Rightarrow> authentication_error ''TikTok authentication error: '' e self'
      | (Inr d, self') \<Rightarrow> (Inr d, self'))"



section \<open>platforms/x\_api.py\<close>

record XPoster = BasePoster +
  api_url_x :: string
  bearer_token :: "string option"
  access_token_secret :: "string option"

text \<open>
  \<open>access_token_secret\<close> is an attribute only from the first \<open>authenticate\<close> on; nothing
  reads it before, and it is \<open>None\<close> here until then.
\<close>

definition XPoster_init :: "world \<Rightarrow> XPoster" where
  "XPoster_init W =
     \<lparr>platform_name = ''x'', access_token = None,
      api_key = getenv W ''X_API_KEY'', api_secret = getenv W ''X_API_SECRET'',
      authenticated = False,
      api_url_x = ''https://api.twitter.com/2'',
      bearer_token = getenv W ''X_BEARER_TOKEN'',
      access_token_secret = None\<rparr>"

definition XPoster_credentials ::
  "world \<Rightarrow> string option \<Rightarrow> string option \<Rightarrow> string option \<Rightarrow> XPoster \<Rightarrow> XPoster" where
  "XPoster_credentials W token key secret self =
     self\<lparr>access_token := or_str token (getenv W ''X_ACCESS_TOKEN''),
          access_token_secret := getenv W ''X_ACCESS_TOKEN_SECRET'',
          api_key := or_str key (api_key self),
          api_secret := or_str secret (api_secret self),
          bearer_token := or_str (bearer_token self) (getenv W ''X_BEARER_TOKEN'')\<rparr>"

definition XPoster_users_me :: "XPoster \<Rightarrow> request" where
  "XPoster_users_me self =
     \<lparr>verb = ''GET'', url = api_url_x self @ ''/users/me'', params = [],
      headers =
        (if truthy_str (bearer_token self)
         then [(''Authorization'',
                PStr (''Bearer '' @ (case bearer_token self of None \<Rightarrow> [] | Some b \<Rightarrow> b)))]
         else []),
      data = PNone, json_payload = PNone\<rparr>"

definition XPoster_verify :: "world \<Rightarrow> XPoster \<Rightarrow> (exn + pydict) \<times> XPoster" where
  "XPoster_verify W self =
     (case http W (XPoster_users_me self) of
        Inl e \<Rightarrow> (Inl e, self)
      | Inr response \<Rightarrow>
          if status response = 200
          then
            (case json response of
               Inl e \<Rightarrow> (Inl e, self)
             | Inr result \<Rightarrow>
                 (case py_get result ''data'' (PDict []) of
                    Inl e \<Rightarrow> (Inl e, self)
                  | Inr user_data \<Rightarrow>
                      (dict_of [(''authenticated'', Inr (PBool True)),
                                (''user_id'', py_get user_data ''id'' PNone),
                                (''username'', py_get user_data ''username'' PNone),
                                (''name'', py_get user_data ''name'' PNone)],
                       self\<lparr>authenticated := True\<rparr>)))
          else
            (case json response of
               Inl e \<Rightarrow> (Inl e, self)
             | Inr error_data \<Rightarrow>
                 (Inl (''Authentication failed: '' @ py_str W error_data), self)))"

definition XPoster_authenticate ::
  "world \<Rightarrow> string option \<Rightarrow> string option \<Rightarrow> string option \<Rightarrow> pydict option
     \<Rightarrow> XPoster \<Rightarrow> (exn + pydict) \<times> XPoster" where
  "XPoster_authenticate W token key secret additional_params self =
     (case (let self1 = XPoster_credentials W token key secret self
            in if \<not> truthy_str (bearer_token self1) \<and>
                  \<not> (truthy_str (access_token self1) \<and>
                     truthy_str (access_token_secret self1))
               then (Inl ''X API requires bearer token or access tokens'', self1)
               else XPoster_verify W self1) of
        (Inl e, self') \<Rightarrow> authentication_error ''X authentication error: '' e self'
      | (Inr d, self') \<Rightarrow> (Inr d, self'))"




section \<open>platforms/youtube\_api.py\<close>

record YouTubePoster = BasePoster +
  api_url_yt :: string
  upload_url :: string
  channel_id :: pyval

text \<open>
  \<open>channel_id\<close> is an attribute only once \<open>authenticate\<close> has found a channel; it is
  \<open>None\<close> here until then.
\<close>

definition YouTubePoster_init :: "world \<Rightarrow> YouTubePoster" where
  "YouTubePoster_init W =
     \<lparr>platform_name = ''youtube'', access_token = None,
      api_key = getenv W ''YOUTUBE_API_KEY'', api_secret = None,
      authenticated = False,
      api_url_yt = ''https://www.googleapis.com/youtube/v3'',
      upload_url = ''https://www.googleapis.com/upload/youtube/v3'',
      channel_id = PNone\<rparr>"

definition YouTubePoster_credentials ::
  "world \<Rightarrow> string option \<Rightarrow> string option \<Rightarrow> YouTubePoster \<Rightarrow> YouTubePoster" where
  "YouTubePoster_credentials W token key self =
     self\<lparr>access_token := or_str token (getenv W ''YOUTUBE_ACCESS_TOKEN''),
          api_key := or_str key (api_key self)\<rparr>"

definition YouTubePoster_channels :: "world \<Rightarrow> YouTubePoster \<Rightarrow> request" where
  "YouTubePoster_channels W self =
     \<lparr>verb = ''GET'', url = api_url_yt self @ ''/channels'',
      params = [(''part'', PStr ''snippet,contentDetails,statistics''),
                (''mine'', PStr ''true'')],
      headers = [(''Authorization'', PStr (''Bearer '' @ py_str W (of_opt (access_token self))))],
      data = PNone, json_payload = PNone\<rparr>"

definition YouTubePoster_verify ::
  "world \<Rightarrow> YouTubePoster \<Rightarrow> (exn + pydict) \<times> YouTubePoster" where
  "YouTubePoster_verify W self =
     (case http W (YouTubePoster_channels W self) of
        Inl e \<Rightarrow> (Inl e, self)
      | Inr response \<Rightarrow>
          if status response = 200
          then
            (case json response of
               Inl e \<Rightarrow> (Inl e, self)
             | Inr result \<Rightarrow>
                 (case py_get result ''items'' PNone of
                    Inl e \<Rightarrow> (Inl e, self)
                  | Inr items \<Rightarrow>
                      if truthy items
                      then
                        (case py_index0 items of
                           Inl e \<Rightarrow> (Inl e, self)
                         | Inr channel \<Rightarrow>
                             (case py_get channel ''id'' PNone of
                                Inl e \<Rightarrow> (Inl e, self)
                              | Inr i \<Rightarrow>
                                  (dict_of
                                     [(''authenticated'', Inr (PBool True)),
                                      (''channel_id'', py_get channel ''id'' PNone),
                                      (''channel_title'',
                                       py_get2 channel ''snippet'' ''title'' PNone),
                                      (''subscriber_count'',
                                       py_get2 channel ''statistics'' ''subscriberCount'' PNone)],
                                   self\<lparr>channel_id := i, authenticated := True\<rparr>)))
                      else (Inl ''No YouTube channel found'', self)))
          else
            (case json response of
               Inl e \<Rightarrow> (Inl e, self)
             | Inr error_data \<Rightarrow>
                 (Inl (''Authentication failed: '' @ py_str W error_data), self)))"

definition YouTubePoster_authenticate ::
  "world \<Rightarrow> string option \<Rightarrow> string option \<Rightarrow> string option \<Rightarrow> pydict option
     \<Rightarrow> YouTubePoster \<Rightarrow> (exn + pydict) \<times> YouTubePoster" where
  "YouTubePoster_authenticate W token key secret additional_params self =
     (case (let self1 = YouTubePoster_credentials W token key self
            in if \<not> truthy_str (access_token self1)
               then (Inl ''YouTube access token is required'', self1)
               else YouTubePoster_verify W self1) of
        (Inl e, self') \<Rightarrow> authentication_error ''YouTube authentication error: '' e self'
      | (Inr d, self') \<Rightarrow> (Inr d, self'))"






section \<open>config.py\<close>

text \<open>
  The credential attributes of the class \<open>Config\<close>, each read once from the environment
  when the module is loaded.  (The three \<open>API_\<close> settings play no part in the checks
  below and are left out.)
\<close>

record Config =
  FACEBOOK_ACCESS_TOKEN :: "string option"
  FACEBOOK_PAGE_ID :: "string option"
  FACEBOOK_APP_ID :: "string option"
  FACEBOOK_APP_SECRET :: "string option"
  INSTAGRAM_ACCESS_TOKEN :: "string option"
  INSTAGRAM_ACCOUNT_ID :: "string option"
  TIKTOK_ACCESS_TOKEN :: "string option"
  TIKTOK_CLIENT_KEY :: "string option"
  TIKTOK_CLIENT_SECRET :: "string option"
  X_API_KEY :: "string option"
  X_API_SECRET :: "string option"
  X_ACCESS_TOKEN :: "string option"
  X_ACCESS_TOKEN_SECRET :: "string option"
  X_BEARER_TOKEN :: "string option"
  THREADS_ACCESS_TOKEN :: "string option"
  THREADS_USER_ID :: "string option"
  YOUTUBE_ACCESS_TOKEN :: "string option"
  YOUTUBE_API_KEY :: "string option"
  YOUTUBE_CLIENT_ID :: "string option"
  YOUTUBE_CLIENT_SECRET :: "string option"

definition Config_load :: "(string \<Rightarrow> string option) \<Rightarrow> Config" where
  "Config_load env =
     \<lparr>FACEBOOK_ACCESS_TOKEN = env ''FACEBOOK_ACCESS_TOKEN'',
      FACEBOOK_PAGE_ID = env ''FACEBOOK_PAGE_ID'',
      FACEBOOK_APP_ID = env ''FACEBOOK_APP_ID'',
      FACEBOOK_APP_SECRET = env ''FACEBOOK_APP_SECRET'',
      INSTAGRAM_ACCESS_TOKEN = env ''INSTAGRAM_ACCESS_TOKEN'',
      INSTAGRAM_ACCOUNT_ID = env ''INSTAGRAM_ACCOUNT_ID'',
      TIKTOK_ACCESS_TOKEN = env ''TIKTOK_ACCESS_TOKEN'',
      TIKTOK_CLIENT_KEY = env ''TIKTOK_CLIENT_KEY'',
      TIKTOK_CLIENT_SECRET = env ''TIKTOK_CLIENT_SECRET'',
      X_API_KEY = env ''X_API_KEY'',
      X_API_SECRET = env ''X_API_SECRET'',
      X_ACCESS_TOKEN = env ''X_ACCESS_TOKEN'',
      X_ACCESS_TOKEN_SECRET = env ''X_ACCESS_TOKEN_SECRET'',
      X_BEARER_TOKEN = env ''X_BEARER_TOKEN'',
      THREADS_ACCESS_TOKEN = env ''THREADS_ACCESS_TOKEN'',
      THREADS_USER_ID = env ''THREADS_USER_ID'',
      YOUTUBE_ACCESS_TOKEN = env ''YOUTUBE_ACCESS_TOKEN'',
      YOUTUBE_API_KEY = env ''YOUTUBE_API_KEY'',
      YOUTUBE_CLIENT_ID = env ''YOUTUBE_CLIENT_ID'',
      YOUTUBE_CLIENT_SECRET = env ''YOUTUBE_CLIENT_SECRET''\<rparr>"

text \<open>\<open>v is not None\<close>.\<close>

definition is_not_None :: "string option \<Rightarrow> bool" where
  "is_not_None v = (case v of None \<Rightarrow> False | Some s \<Rightarrow> True)"

definition validate_credentials :: "Config \<Rightarrow> string \<Rightarrow> bool" where
  "validate_credentials cls p =
     (let validation_map =
        [(''facebook'', is_not_None (FACEBOOK_ACCESS_TOKEN cls)),
         (''instagram'',
          is_not_None (INSTAGRAM_ACCESS_TOKEN cls) \<and> is_not_None (INSTAGRAM_ACCOUNT_ID cls)),
         (''tiktok'', is_not_None (TIKTOK_ACCESS_TOKEN cls)),
         (''x'',
          is_not_None (X_BEARER_TOKEN cls) \<or>
          (is_not_None (X_ACCESS_TOKEN cls) \<and> is_not_None (X_ACCESS_TOKEN_SECRET cls))),
         (''threads'',
          is_not_None (THREADS_ACCESS_TOKEN cls) \<and> is_not_None (THREADS_USER_ID cls)),
         (''youtube'', is_not_None (YOUTUBE_ACCESS_TOKEN cls))]
      in case map_of validation_map p of None \<Rightarrow> False | Some b \<Rightarrow> b)"

definition get_available_platforms :: "Config \<Rightarrow> string list" where
  "get_available_platforms cls =
     filter (validate_credentials cls)
       [''facebook'', ''instagram'', ''tiktok'', ''x'', ''threads'', ''youtube'']"

section \<open>The specification's reading of the YouTube split\<close>


section \<open>Test doubles\<close>

text \<open>
  Adapters for concrete runs: the world is the list of the texts the adapters were called
  with, one adapter always returns a given dict, the other always raises.
\<close>

definition returning_poster :: "pydict \<Rightarrow> (string list) create_post" where
  "returning_poster d t m s w = (Inr d, w @ [t])"

definition raising_poster :: "exn \<Rightarrow> (string list) create_post" where
  "raising_poster e t m s w = (Inl e, w @ [t])"

definition demo_posters :: "(string list) posters" where
  "demo_posters =
     \<lparr>facebook_poster =
        returning_poster [(''post_id'', PStr ''42''), (''success'', PBool False)],
      instagram_poster = raising_poster ''Instagram post error: boom'',
      tiktok_poster = returning_poster [(''success'', PBool True)],
      x_poster = returning_poster [(''post_id'', PNone)],
      threads_poster = raising_poster ''Threads post error: boom'',
      youtube_poster = raising_poster ''YouTube post error: boom''\<rparr>"

definition demo_content :: "string list \<Rightarrow> PostContent" where
  "demo_content ps =
     \<lparr>text' = ''hello'', platforms = ps, media_urls = None, schedule_time = None\<rparr>"

definition reject :: "pyval \<Rightarrow> exn + string option" where
  "reject v = Inl ''Input should be a valid string''"

text \<open>
  A world for concrete runs: the environment holds the variables listed, every request
  is answered with the given status and decoded body.
\<close>

definition demo_world :: "(string \<times> string) list \<Rightarrow> nat \<Rightarrow> pyval \<Rightarrow> world" where
  "demo_world env code body =
     \<lparr>getenv = map_of env,
      http = (\<lambda>q. Inr \<lparr>status = code, json = Inr body\<rparr>),
      str = (\<lambda>v. ''<value>'')\<rparr>"

definition demo_env :: "(string \<times> string) list" where
  "demo_env =
     [(''FACEBOOK_ACCESS_TOKEN'', ''t1''), (''INSTAGRAM_ACCESS_TOKEN'', ''t2''),
      (''X_BEARER_TOKEN'', ''t3''), (''THREADS_USER_ID'', ''7'')]"

text \<open>The body of a successful answer of Facebook's \<open>/me\<close> and of its feed endpoint.\<close>

definition demo_body :: pyval where
  "demo_body = PDict [(''id'', PStr ''1''), (''name'', PStr ''Page'')]"

definition demo_token_env :: "(string \<times> string) list" where
  "demo_token_env = [(''FACEBOOK_ACCESS_TOKEN'', ''fromenv'')]"

section \<open>The aggregator of main.py\<close>

lemma try_post_platform: "platform (fst (try_post other poster content p w)) = p"
  by (simp add: try_post_def failed_def posted_def split: prod.splits sum.splits)

lemma post_loop_acc:
  "post_loop other reg content ps rs w =
     (rs @ fst (post_loop other reg content ps [] w), snd (post_loop other reg content ps [] w))"
proof (induction ps arbitrary: rs w)
  case Nil
  show ?case by simp
next
  case (Cons p ps)
  show ?case
  proof (cases "map_of reg p")
    case None
    then show ?thesis
      using Cons.IH [of "rs @ [not_supported p]" w] Cons.IH [of "[not_supported p]" w]
      by simp
  next
    case (Some poster)
    obtain r w' where tp: "try_post other poster content p w = (r, w')"
      by (cases "try_post other poster content p w")
    show ?thesis
      using Some tp Cons.IH [of "rs @ [r]" w'] Cons.IH [of "[r]" w']
      by simp
  qed
qed

lemma post_loop_append:
  "post_loop other reg content (xs @ ys) rs w =
     (case post_loop other reg content xs rs w of
        (rs', w') \<Rightarrow> post_loop other reg content ys rs' w')"
  by (induction xs arbitrary: rs w) (auto split: option.splits prod.splits)

lemma post_loop_platforms:
  "map platform (fst (post_loop other reg content ps rs w)) = map platform rs @ ps"
proof (induction ps arbitrary: rs w)
  case Nil
  show ?case by simp
next
  case (Cons p ps)
  show ?case
  proof (cases "map_of reg p")
    case None
    then show ?thesis
      using Cons.IH [of "rs @ [not_supported p]" w] by (simp add: not_supported_def)
  next
    case (Some poster)
    obtain r w' where tp: "try_post other poster content p w = (r, w')"
      by (cases "try_post other poster content p w")
    then have "platform r = p"
      using try_post_platform [of other poster content p w] by simp
    then show ?thesis
      using Some tp Cons.IH [of "rs @ [r]" w'] by simp
  qed
qed

text \<open>
  Claim C1.  Whatever the platform list of a request to \<open>POST /api/post\<close> is, the list of
  outcomes has its length and the outcomes carry its platform ids in the same order, whether
  the adapters return, raise or are not registered.
\<close>

theorem post_to_platforms_one_outcome_per_platform:
  "length (fst (post_to_platforms other P content w)) = length (platforms content) \<and>
   map platform (fst (post_to_platforms other P content w)) = platforms content"
proof -
  have m: "map platform (fst (post_to_platforms other P content w)) = platforms content"
    by (simp add: post_to_platforms_def post_loop_platforms)
  have "length (fst (post_to_platforms other P content w)) = length (platforms content)"
    using arg_cong [OF m, of length] by simp
  with m show ?thesis by simp
qed

lemma try_post_platforms_update:
  "try_post other poster (content\<lparr>platforms := x\<rparr>) p w = try_post other poster content p w"
  by (simp add: try_post_def)

lemma post_loop_platforms_update:
  "post_loop other reg (content\<lparr>platforms := x\<rparr>) ps rs w = post_loop other reg content ps rs w"
  by (induction ps arbitrary: rs w)
     (simp_all add: try_post_platforms_update split: option.splits prod.splits)

lemma post_loop_length:
  "length (fst (post_loop other reg content ps rs w)) = length rs + length ps"
  using arg_cong [OF post_loop_platforms [of other reg content ps rs w], of length] by simp

lemma post_loop_nth:
  "fst (post_loop other reg content (pre @ p # post) [] w) ! length pre =
     (case map_of reg p of
        None \<Rightarrow> not_supported p
      | Some poster \<Rightarrow>
          fst (try_post other poster content p (snd (post_loop other reg content pre [] w))))"
proof -
  obtain rs1 w1 where pre: "post_loop other reg content pre [] w = (rs1, w1)"
    by (cases "post_loop other reg content pre [] w")
  have len: "length rs1 = length pre"
    using post_loop_length [of other reg content pre "[]" w] pre by simp
  show ?thesis
  proof (cases "map_of reg p")
    case None
    have "post_loop other reg content (pre @ p # post) [] w =
            post_loop other reg content post (rs1 @ [not_supported p]) w1"
      using pre None by (simp add: post_loop_append)
    then have "fst (post_loop other reg content (pre @ p # post) [] w) =
            (rs1 @ [not_supported p]) @ fst (post_loop other reg content post [] w1)"
      using post_loop_acc [of other reg content post "rs1 @ [not_supported p]" w1] by simp
    then show ?thesis using None len by (simp add: nth_append)
  next
    case (Some poster)
    obtain r w' where tp: "try_post other poster content p w1 = (r, w')"
      by (cases "try_post other poster content p w1")
    have "post_loop other reg content (pre @ p # post) [] w =
            post_loop other reg content post (rs1 @ [r]) w'"
      using pre Some tp by (simp add: post_loop_append)
    then have "fst (post_loop other reg content (pre @ p # post) [] w) =
            (rs1 @ [r]) @ fst (post_loop other reg content post [] w')"
      using post_loop_acc [of other reg content post "rs1 @ [r]" w'] by simp
    then show ?thesis using Some len tp pre by (simp add: nth_append)
  qed
qed

lemma post_loop_filter:
  "post_loop other reg content (filter (\<lambda>p. map_of reg p \<noteq> None) ps) [] w =
     (filter (\<lambda>r. map_of reg (platform r) \<noteq> None) (fst (post_loop other reg content ps [] w)),
      snd (post_loop other reg content ps [] w))"
proof (induction ps arbitrary: w)
  case Nil
  show ?case by simp
next
  case (Cons p ps)
  show ?case
  proof (cases "map_of reg p")
    case None
    have "post_loop other reg content (p # ps) [] w =
            ([not_supported p] @ fst (post_loop other reg content ps [] w),
             snd (post_loop other reg content ps [] w))"
      using None post_loop_acc [of other reg content ps "[not_supported p]" w] by simp
    then show ?thesis using None Cons.IH [of w] by (simp add: not_supported_def)
  next
    case (Some poster)
    obtain r w' where tp: "try_post other poster content p w = (r, w')"
      by (cases "try_post other poster content p w")
    have pr: "platform r = p"
      using try_post_platform [of other poster content p w] tp by simp
    have full: "post_loop other reg content (p # ps) [] w =
            ([r] @ fst (post_loop other reg content ps [] w'),
             snd (post_loop other reg content ps [] w'))"
      using Some tp post_loop_acc [of other reg content ps "[r]" w'] by simp
    have "post_loop other reg content (filter (\<lambda>p. map_of reg p \<noteq> None) (p # ps)) [] w =
            post_loop other reg content (filter (\<lambda>p. map_of reg p \<noteq> None) ps) [r] w'"
      using Some tp by simp
    also have "\<dots> = ([r] @ fst (post_loop other reg content (filter (\<lambda>p. map_of reg p \<noteq> None) ps) [] w'),
                      snd (post_loop other reg content (filter (\<lambda>p. map_of reg p \<noteq> None) ps) [] w'))"
      using post_loop_acc [of other reg content "filter (\<lambda>p. map_of reg p \<noteq> None) ps" "[r]" w'] .
    finally show ?thesis using full Cons.IH [of w'] pr Some by simp
  qed
qed

text \<open>
  Claim C2.  At every position of the batch that holds a platform id with no registered
  adapter, the outcome is the failed one with the message \<open>Platform not supported\<close>.
  Nothing is invoked for these ids and the rest is unaffected: the batch without them
  leaves the world (adapters and network) in the same state and gives the same outcomes
  for the registered ids.
\<close>

theorem unsupported_platform_outcome:
  assumes "i < length (platforms content)"
      and "map_of (platform_posters P) (platforms content ! i) = None"
  shows "fst (post_to_platforms other P content w) ! i =
           \<lparr>success = False, platform = platforms content ! i, post_id = None,
            message = ''Platform not supported'',
            error = Some (''Platform '' @ quote @ (platforms content ! i) @ quote @
                          '' is not supported'')\<rparr>
         \<and> post_to_platforms other P
             (content\<lparr>platforms :=
                filter (\<lambda>p. map_of (platform_posters P) p \<noteq> None) (platforms content)\<rparr>) w =
           (filter (\<lambda>r. map_of (platform_posters P) (platform r) \<noteq> None)
              (fst (post_to_platforms other P content w)),
            snd (post_to_platforms other P content w))"
proof -
  let ?ps = "platforms content"
  have split: "?ps = take i ?ps @ ?ps ! i # drop (Suc i) ?ps"
    using assms(1) by (simp add: id_take_nth_drop)
  have li: "length (take i ?ps) = i"
    using assms(1) by simp
  have "fst (post_loop other (platform_posters P) content
               (take i ?ps @ ?ps ! i # drop (Suc i) ?ps) [] w) ! length (take i ?ps) =
          not_supported (?ps ! i)"
    using assms(2) post_loop_nth [of other "platform_posters P" content "take i ?ps" "?ps ! i" "drop (Suc i) ?ps" w]
    by simp
  then have a: "fst (post_to_platforms other P content w) ! i = not_supported (?ps ! i)"
    using split li by (simp add: post_to_platforms_def)
  define F where "F = filter (\<lambda>p. map_of (platform_posters P) p \<noteq> None) ?ps"
  have "post_to_platforms other P (content\<lparr>platforms := F\<rparr>) w =
          post_loop other (platform_posters P) content F [] w"
    by (simp add: post_to_platforms_def post_loop_platforms_update)
  also have "\<dots> =
          (filter (\<lambda>r. map_of (platform_posters P) (platform r) \<noteq> None)
              (fst (post_loop other (platform_posters P) content ?ps [] w)),
            snd (post_loop other (platform_posters P) content ?ps [] w))"
    unfolding F_def by (rule post_loop_filter)
  finally have b: "post_to_platforms other P (content\<lparr>platforms := F\<rparr>) w =
           (filter (\<lambda>r. map_of (platform_posters P) (platform r) \<noteq> None)
              (fst (post_to_platforms other P content w)),
            snd (post_to_platforms other P content w))"
    unfolding post_to_platforms_def .
  from a have a': "fst (post_to_platforms other P content w) ! i =
           \<lparr>success = False, platform = ?ps ! i, post_id = None,
            message = ''Platform not supported'',
            error = Some (''Platform '' @ quote @ (?ps ! i) @ quote @ '' is not supported'')\<rparr>"
    by (simp add: not_supported_def)
  from a' b show ?thesis unfolding F_def by (rule conjI)
qed




text \<open>The batch \<open>facebook, bogus, x\<close> on the test doubles.\<close>

theorem unsupported_platform_outcome_witness:
  "fst (post_to_platforms reject demo_posters (demo_content [''facebook'', ''bogus'', ''x'']) []) ! 1 =
     \<lparr>success = False, platform = ''bogus'', post_id = None,
      message = ''Platform not supported'',
      error = Some (''Platform '' @ quote @ ''bogus'' @ quote @ '' is not supported'')\<rparr> \<and>
   post_to_platforms reject demo_posters (demo_content [''facebook'', ''x'']) [] =
     (filter (\<lambda>r. map_of (platform_posters demo_posters) (platform r) \<noteq> None)
        (fst (post_to_platforms reject demo_posters (demo_content [''facebook'', ''bogus'', ''x'']) [])),
      snd (post_to_platforms reject demo_posters (demo_content [''facebook'', ''bogus'', ''x'']) []))"
proof -
  let ?c = "demo_content [''facebook'', ''bogus'', ''x'']"
  have i: "1 < length (platforms ?c)"
    by (simp add: demo_content_def)
  have u: "map_of (platform_posters demo_posters) (platforms ?c ! 1) = None"
    by (simp add: demo_content_def platform_posters_def)
  have f: "?c\<lparr>platforms := filter (\<lambda>p. map_of (platform_posters demo_posters) p \<noteq> None) (platforms ?c)\<rparr>
             = demo_content [''facebook'', ''x'']"
    by (simp add: demo_content_def platform_posters_def)
  have n: "platforms ?c ! 1 = ''bogus''"
    by (simp add: demo_content_def)
  show ?thesis
    using unsupported_platform_outcome [OF i u, of reject "[]"] unfolding f n by simp
qed

text \<open>
  Claim C9.  Whatever the adapters are, the ids \<open>GET /health\<close> reports are among the six of
  \<open>GET /\<close> and among the ids of the catalog of \<open>GET /api/platforms\<close>.
\<close>

theorem health_platforms_subset:
  "set (platforms_available (health_check P now)) \<subseteq> set root_supported_platforms \<and>
   set (platforms_available (health_check P now)) \<subseteq> set (map pid get_supported_platforms)"
  by (simp add: health_check_def platform_posters_def root_supported_platforms_def
                get_supported_platforms_def)

text \<open>
  Claim C3 says that an empty \<open>text\<close> or an empty \<open>platforms\<close> list is answered with a
  validation error and reaches no adapter.  The handler does otherwise: with the body
  \<open>{"text": "", "platforms": ["facebook"]}\<close> the Facebook adapter's \<open>create_post\<close> is
  called with the empty text and the reply is 200 with its outcome; with
  \<open>{"text": "Test", "platforms": []}\<close> the reply is 200 with the empty list.
\<close>

theorem api_post_accepts_empty_text_and_empty_platforms:
  "api_post other P
     \<lparr>body_text = Some [], body_platforms = Some [''facebook''],
      body_media_urls = None, body_schedule_time = None\<rparr> w =
     ((200, Outcomes
         [fst (try_post other (facebook_poster P)
                 \<lparr>text' = [], platforms = [''facebook''], media_urls = None,
                  schedule_time = None\<rparr> ''facebook'' w)]),
      snd (facebook_poster P [] None None w)) \<and>
   api_post other P
     \<lparr>body_text = Some ''Test'', body_platforms = Some [],
      body_media_urls = None, body_schedule_time = None\<rparr> w =
     ((200, Outcomes []), w)"
proof -
  have a: "map_of (platform_posters P) ''facebook'' = Some (facebook_poster P)"
    by (simp add: platform_posters_def)
  have b: "snd (try_post other (facebook_poster P)
                 \<lparr>text' = [], platforms = [''facebook''], media_urls = None,
                  schedule_time = None\<rparr> ''facebook'' w) =
           snd (facebook_poster P [] None None w)"
    by (simp add: try_post_def split: prod.splits sum.splits)
  show ?thesis
    using a b
    by (auto simp add: api_post_def PostContent_of_body_def post_to_platforms_def
             split: prod.splits)
qed

section \<open>The adapters\<close>

subsection \<open>Facebook: authenticate and the head of create\_post\<close>


lemma FacebookPoster_verify_token:
  "access_token (snd (FacebookPoster_verify W s)) = access_token s"
  by (simp add: FacebookPoster_verify_def split: sum.splits)

lemma FacebookPoster_credentials_token:
  "access_token (FacebookPoster_credentials W token ap self) =
     (if truthy_str token then token else getenv W ''FACEBOOK_ACCESS_TOKEN'')"
  by (simp add: FacebookPoster_credentials_def Let_def or_str_def)

lemma FacebookPoster_missing:
  assumes "\<not> truthy_str (access_token (FacebookPoster_credentials W token ap self))"
  shows "FacebookPoster_authenticate W token key secret ap self =
           (Inl ''Facebook authentication error: Facebook access token is required'',
            (FacebookPoster_credentials W token ap self)\<lparr>authenticated := False\<rparr>)"
  using assms
  by (simp add: FacebookPoster_authenticate_def authentication_error_def Let_def)

lemma FacebookPoster_present:
  assumes "\<not> (\<not> truthy_str (access_token (FacebookPoster_credentials W token ap self)))"
  shows "FacebookPoster_authenticate W token key secret ap self =
           (case FacebookPoster_verify W (FacebookPoster_credentials W token ap self) of
              (Inl e, self') \<Rightarrow> (Inl (''Facebook authentication error: '' @ e), self'\<lparr>authenticated := False\<rparr>)
            | (Inr d, self') \<Rightarrow> (Inr d, self'))"
  using assms
  by (auto split: prod.splits sum.splits simp add: FacebookPoster_authenticate_def authentication_error_def Let_def)



lemma FacebookPoster_authenticate_token:
  "access_token (snd (FacebookPoster_authenticate W token key secret ap self)) =
     (if truthy_str token then token else getenv W ''FACEBOOK_ACCESS_TOKEN'')"
proof (cases "\<not> truthy_str (access_token (FacebookPoster_credentials W token ap self))")
  case True
  then show ?thesis
    by (simp add: FacebookPoster_missing FacebookPoster_credentials_token)
next
  case False
  obtain r s' where v: "FacebookPoster_verify W (FacebookPoster_credentials W token ap self) = (r, s')"
    by (cases "FacebookPoster_verify W (FacebookPoster_credentials W token ap self)")
  have "access_token s' = access_token (FacebookPoster_credentials W token ap self)"
    using FacebookPoster_verify_token [of W "FacebookPoster_credentials W token ap self"] v by simp
  then show ?thesis
    using v by (cases r) (simp_all add: FacebookPoster_present [OF False] FacebookPoster_credentials_token)
qed


subsection \<open>Instagram: authenticate and the head of create\_post\<close>


lemma InstagramPoster_verify_token:
  "access_token (snd (InstagramPoster_verify W s)) = access_token s"
  by (simp add: InstagramPoster_verify_def split: sum.splits)

lemma InstagramPoster_credentials_token:
  "access_token (InstagramPoster_credentials W token ap self) =
     (if truthy_str token then token else getenv W ''INSTAGRAM_ACCESS_TOKEN'')"
  by (simp add: InstagramPoster_credentials_def Let_def or_str_def)

lemma InstagramPoster_missing:
  assumes "\<not> truthy_str (access_token (InstagramPoster_credentials W token ap self)) \<or> \<not> truthy (instagram_account_id (InstagramPoster_credentials W token ap self))"
  shows "InstagramPoster_authenticate W token key secret ap self =
           (Inl ''Instagram authentication error: Instagram access token and account ID are required'',
            (InstagramPoster_credentials W token ap self)\<lparr>authenticated := False\<rparr>)"
  using assms
  by (simp add: InstagramPoster_authenticate_def authentication_error_def Let_def)

lemma InstagramPoster_present:
  assumes "\<not> (\<not> truthy_str (access_token (InstagramPoster_credentials W token ap self)) \<or> \<not> truthy (instagram_account_id (InstagramPoster_credentials W token ap self)))"
  shows "InstagramPoster_authenticate W token key secret ap self =
           (case InstagramPoster_verify W (InstagramPoster_credentials W token ap self) of
              (Inl e, self') \<Rightarrow> (Inl (''Instagram authentication error: '' @ e), self'\<lparr>authenticated := False\<rparr>)
            | (Inr d, self') \<Rightarrow> (Inr d, self'))"
  using assms
  by (auto split: prod.splits sum.splits simp add: InstagramPoster_authenticate_def authentication_error_def Let_def)



lemma InstagramPoster_authenticate_token:
  "access_token (snd (InstagramPoster_authenticate W token key secret ap self)) =
     (if truthy_str token then token else getenv W ''INSTAGRAM_ACCESS_TOKEN'')"
proof (cases "\<not> truthy_str (access_token (InstagramPoster_credentials W token ap self)) \<or> \<not> truthy (instagram_account_id (InstagramPoster_credentials W token ap self))")
  case True
  then show ?thesis
    by (simp add: InstagramPoster_missing InstagramPoster_credentials_token)
next
  case False
  obtain r s' where v: "InstagramPoster_verify W (InstagramPoster_credentials W token ap self) = (r, s')"
    by (cases "InstagramPoster_verify W (InstagramPoster_credentials W token ap self)")
  have "access_token s' = access_token (InstagramPoster_credentials W token ap self)"
    using InstagramPoster_verify_token [of W "InstagramPoster_credentials W token ap self"] v by simp
  then show ?thesis
    using v by (cases r) (simp_all add: InstagramPoster_present [OF False] InstagramPoster_credentials_token)
qed


subsection \<open>Threads: authenticate and the head of create\_post\<close>


lemma ThreadsPoster_verify_token:
  "access_token (snd (ThreadsPoster_verify W s)) = access_token s"
  by (simp add: ThreadsPoster_verify_def split: sum.splits)

lemma ThreadsPoster_credentials_token:
  "access_token (ThreadsPoster_credentials W token ap self) =
     (if truthy_str token then token else getenv W ''THREADS_ACCESS_TOKEN'')"
  by (simp add: ThreadsPoster_credentials_def Let_def or_str_def)

lemma ThreadsPoster_missing:
  assumes "\<not> truthy_str (access_token (ThreadsPoster_credentials W token ap self)) \<or> \<not> truthy (threads_user_id (ThreadsPoster_credentials W token ap self))"
  shows "ThreadsPoster_authenticate W token key secret ap self =
           (Inl ''Threads authentication error: Threads access token and user ID are required'',
            (ThreadsPoster_credentials W token ap self)\<lparr>authenticated := False\<rparr>)"
  using assms
  by (simp add: ThreadsPoster_authenticate_def authentication_error_def Let_def)

lemma ThreadsPoster_present:
  assumes "\<not> (\<not> truthy_str (access_token (ThreadsPoster_credentials W token ap self)) \<or> \<not> truthy (threads_user_id (ThreadsPoster_credentials W token ap self)))"
  shows "ThreadsPoster_authenticate W token key secret ap self =
           (case ThreadsPoster_verify W (ThreadsPoster_credentials W token ap self) of
              (Inl e, self') \<Rightarrow> (Inl (''Threads authentication error: '' @ e), self'\<lparr>authenticated := False\<rparr>)
            | (Inr d, self') \<Rightarrow> (Inr d, self'))"
  using assms
  by (auto split: prod.splits sum.splits simp add: ThreadsPoster_authenticate_def authentication_error_def Let_def)



lemma ThreadsPoster_authenticate_token:
  "access_token (snd (ThreadsPoster_authenticate W token key secret ap self)) =
     (if truthy_str token then token else getenv W ''THREADS_ACCESS_TOKEN'')"
proof (cases "\<not> truthy_str (access_token (ThreadsPoster_credentials W token ap self)) \<or> \<not> truthy (threads_user_id (ThreadsPoster_credentials W token ap self))")
  case True
  then show ?thesis
    by (simp add: ThreadsPoster_missing ThreadsPoster_credentials_token)
next
  case False
  obtain r s' where v: "ThreadsPoster_verify W (ThreadsPoster_credentials W token ap self) = (r, s')"
    by (cases "ThreadsPoster_verify W (ThreadsPoster_credentials W token ap self)")
  have "access_token s' = access_token (ThreadsPoster_credentials W token ap self)"
    using ThreadsPoster_verify_token [of W "ThreadsPoster_credentials W token ap self"] v by simp
  then show ?thesis
    using v by (cases r) (simp_all add: ThreadsPoster_present [OF False] ThreadsPoster_credentials_token)
qed


subsection \<open>TikTok: authenticate and the head of create\_post\<close>


lemma TikTokPoster_verify_token:
  "access_token (snd (TikTokPoster_verify W s)) = access_token s"
  by (simp add: TikTokPoster_verify_def split: sum.splits)

lemma TikTokPoster_credentials_token:
  "access_token (TikTokPoster_credentials W token key secret self) =
     (if truthy_str token then token else getenv W ''TIKTOK_ACCESS_TOKEN'')"
  by (simp add: TikTokPoster_credentials_def Let_def or_str_def)

lemma TikTokPoster_missing:
  assumes "\<not> truthy_str (access_token (TikTokPoster_credentials W token key secret self))"
  shows "TikTokPoster_authenticate W token key secret ap self =
           (Inl ''TikTok authentication error: TikTok access token is required'',
            (TikTokPoster_credentials W token key secret self)\<lparr>authenticated := False\<rparr>)"
  using assms
  by (simp add: TikTokPoster_authenticate_def authentication_error_def Let_def)

lemma TikTokPoster_present:
  assumes "\<not> (\<not> truthy_str (access_token (TikTokPoster_credentials W token key secret self)))"
  shows "TikTokPoster_authenticate W token key secret ap self =
           (case TikTokPoster_verify W (TikTokPoster_credentials W token key secret self) of
              (Inl e, self') \<Rightarrow> (Inl (''TikTok authentication error: '' @ e), self'\<lparr>authenticated := False\<rparr>)
            | (Inr d, self') \<Rightarrow> (Inr d, self'))"
  using assms
  by (auto split: prod.splits sum.splits simp add: TikTokPoster_authenticate_def authentication_error_def Let_def)



lemma TikTokPoster_authenticate_token:
  "access_token (snd (TikTokPoster_authenticate W token key secret ap self)) =
     (if truthy_str token then token else getenv W ''TIKTOK_ACCESS_TOKEN'')"
proof (cases "\<not> truthy_str (access_token (TikTokPoster_credentials W token key secret self))")
  case True
  then show ?thesis
    by (simp add: TikTokPoster_missing TikTokPoster_credentials_token)
next
  case False
  obtain r s' where v: "TikTokPoster_verify W (TikTokPoster_credentials W token key secret self) = (r, s')"
    by (cases "TikTokPoster_verify W (TikTokPoster_credentials W token key secret self)")
  have "access_token s' = access_token (TikTokPoster_credentials W token key secret self)"
    using TikTokPoster_verify_token [of W "TikTokPoster_credentials W token key secret self"] v by simp
  then show ?thesis
    using v by (cases r) (simp_all add: TikTokPoster_present [OF False] TikTokPoster_credentials_token)
qed


subsection \<open>X: authenticate and the head of create\_post\<close>


lemma XPoster_verify_token:
  "access_token (snd (XPoster_verify W s)) = access_token s"
  by (simp add: XPoster_verify_def split: sum.splits)

lemma XPoster_credentials_token:
  "access_token (XPoster_credentials W token key secret self) =
     (if truthy_str token then token else getenv W ''X_ACCESS_TOKEN'')"
  by (simp add: XPoster_credentials_def Let_def or_str_def)

lemma XPoster_missing:
  assumes "\<not> truthy_str (bearer_token (XPoster_credentials W token key secret self)) \<and> \<not> (truthy_str (access_token (XPoster_credentials W token key secret self)) \<and> truthy_str (access_token_secret (XPoster_credentials W token key secret self)))"
  shows "XPoster_authenticate W token key secret ap self =
           (Inl ''X authentication error: X API requires bearer token or access tokens'',
            (XPoster_credentials W token key secret self)\<lparr>authenticated := False\<rparr>)"
  using assms
  by (simp add: XPoster_authenticate_def authentication_error_def Let_def)

lemma XPoster_present:
  assumes "\<not> (\<not> truthy_str (bearer_token (XPoster_credentials W token key secret self)) \<and> \<not> (truthy_str (access_token (XPoster_credentials W token key secret self)) \<and> truthy_str (access_token_secret (XPoster_credentials W token key secret self))))"
  shows "XPoster_authenticate W token key secret ap self =
           (case XPoster_verify W (XPoster_credentials W token key secret self) of
              (Inl e, self') \<Rightarrow> (Inl (''X authentication error: '' @ e), self'\<lparr>authenticated := False\<rparr>)
            | (Inr d, self') \<Rightarrow> (Inr d, self'))"
  using assms
  by (auto split: prod.splits sum.splits simp add: XPoster_authenticate_def authentication_error_def Let_def)



lemma XPoster_authenticate_token:
  "access_token (snd (XPoster_authenticate W token key secret ap self)) =
     (if truthy_str token then token else getenv W ''X_ACCESS_TOKEN'')"
proof (cases "\<not> truthy_str (bearer_token (XPoster_credentials W token key secret self)) \<and> \<not> (truthy_str (access_token (XPoster_credentials W token key secret self)) \<and> truthy_str (access_token_secret (XPoster_credentials W token key secret self)))")
  case True
  then show ?thesis
    by (simp add: XPoster_missing XPoster_credentials_token)
next
  case False
  obtain r s' where v: "XPoster_verify W (XPoster_credentials W token key secret self) = (r, s')"
    by (cases "XPoster_verify W (XPoster_credentials W token key secret self)")
  have "access_token s' = access_token (XPoster_credentials W token key secret self)"
    using XPoster_verify_token [of W "XPoster_credentials W token key secret self"] v by simp
  then show ?thesis
    using v by (cases r) (simp_all add: XPoster_present [OF False] XPoster_credentials_token)
qed


subsection \<open>YouTube: authenticate and the head of create\_post\<close>


lemma YouTubePoster_verify_token:
  "access_token (snd (YouTubePoster_verify W s)) = access_token s"
  by (simp add: YouTubePoster_verify_def split: sum.splits)

lemma YouTubePoster_credentials_token:
  "access_token (YouTubePoster_credentials W token key self) =
     (if truthy_str token then token else getenv W ''YOUTUBE_ACCESS_TOKEN'')"
  by (simp add: YouTubePoster_credentials_def Let_def or_str_def)

lemma YouTubePoster_missing:
  assumes "\<not> truthy_str (access_token (YouTubePoster_credentials W token key self))"
  shows "YouTubePoster_authenticate W token key secret ap self =
           (Inl ''YouTube authentication error: YouTube access token is required'',
            (YouTubePoster_credentials W token key self)\<lparr>authenticated := False\<rparr>)"
  using assms
  by (simp add: YouTubePoster_authenticate_def authentication_error_def Let_def)

lemma YouTubePoster_present:
  assumes "\<not> (\<not> truthy_str (access_token (YouTubePoster_credentials W token key self)))"
  shows "YouTubePoster_authenticate W token key secret ap self =
           (case YouTubePoster_verify W (YouTubePoster_credentials W token key self) of
              (Inl e, self') \<Rightarrow> (Inl (''YouTube authentication error: '' @ e), self'\<lparr>authenticated := False\<rparr>)
            | (Inr d, self') \<Rightarrow> (Inr d, self'))"
  using assms
  by (auto split: prod.splits sum.splits simp add: YouTubePoster_authenticate_def authentication_error_def Let_def)



lemma YouTubePoster_authenticate_token:
  "access_token (snd (YouTubePoster_authenticate W token key secret ap self)) =
     (if truthy_str token then token else getenv W ''YOUTUBE_ACCESS_TOKEN'')"
proof (cases "\<not> truthy_str (access_token (YouTubePoster_credentials W token key self))")
  case True
  then show ?thesis
    by (simp add: YouTubePoster_missing YouTubePoster_credentials_token)
next
  case False
  obtain r s' where v: "YouTubePoster_verify W (YouTubePoster_credentials W token key self) = (r, s')"
    by (cases "YouTubePoster_verify W (YouTubePoster_credentials W token key self)")
  have "access_token s' = access_token (YouTubePoster_credentials W token key self)"
    using YouTubePoster_verify_token [of W "YouTubePoster_credentials W token key self"] v by simp
  then show ?thesis
    using v by (cases r) (simp_all add: YouTubePoster_present [OF False] YouTubePoster_credentials_token)
qed



lemma FacebookPoster_missing_iff:
  "(\<not> truthy_str (access_token (FacebookPoster_credentials W token ap self))) =
   (\<not> truthy_str (if truthy_str token then token else getenv W ''FACEBOOK_ACCESS_TOKEN''))"
  by (simp add: FacebookPoster_credentials_token)

lemma FacebookPoster_token_contract:
  "(access_token (snd (FacebookPoster_authenticate W token key secret ap self)) =
       (if truthy_str token then token else getenv W ''FACEBOOK_ACCESS_TOKEN'') \<and>
    ((\<not> truthy_str (if truthy_str token then token else getenv W ''FACEBOOK_ACCESS_TOKEN'')) \<longrightarrow>
       fst (FacebookPoster_authenticate W token key secret ap self) =
         Inl ''Facebook authentication error: Facebook access token is required'') \<and>
    ((truthy_str (if truthy_str token then token else getenv W ''FACEBOOK_ACCESS_TOKEN'')) \<longrightarrow>
       FacebookPoster_authenticate W token key secret ap self =
         (case FacebookPoster_verify W (FacebookPoster_credentials W token ap self) of
            (Inl e, self') \<Rightarrow>
              (Inl (''Facebook authentication error: '' @ e), self'\<lparr>authenticated := False\<rparr>)
          | (Inr d, self') \<Rightarrow> (Inr d, self'))))"
proof -
  have a: "access_token (snd (FacebookPoster_authenticate W token key secret ap self)) =
    (if truthy_str token then token else getenv W ''FACEBOOK_ACCESS_TOKEN'')"
    by (rule FacebookPoster_authenticate_token)
  have b: "(\<not> truthy_str (if truthy_str token then token else getenv W ''FACEBOOK_ACCESS_TOKEN'')) \<longrightarrow>
    fst (FacebookPoster_authenticate W token key secret ap self) =
      Inl ''Facebook authentication error: Facebook access token is required''"
  proof
    assume "\<not> truthy_str (if truthy_str token then token else getenv W ''FACEBOOK_ACCESS_TOKEN'')"
    then have "\<not> truthy_str (access_token (FacebookPoster_credentials W token ap self))"
      unfolding FacebookPoster_missing_iff .
    from FacebookPoster_missing [OF this] show "fst (FacebookPoster_authenticate W token key secret ap self) =
      Inl ''Facebook authentication error: Facebook access token is required''"
      by simp
  qed
  have c: "(truthy_str (if truthy_str token then token else getenv W ''FACEBOOK_ACCESS_TOKEN'')) \<longrightarrow>
    FacebookPoster_authenticate W token key secret ap self =
      (case FacebookPoster_verify W (FacebookPoster_credentials W token ap self) of
         (Inl e, self') \<Rightarrow>
           (Inl (''Facebook authentication error: '' @ e), self'\<lparr>authenticated := False\<rparr>)
       | (Inr d, self') \<Rightarrow> (Inr d, self'))"
  proof
    assume "truthy_str (if truthy_str token then token else getenv W ''FACEBOOK_ACCESS_TOKEN'')"
    then have "\<not> (\<not> truthy_str (access_token (FacebookPoster_credentials W token ap self)))"
      unfolding FacebookPoster_missing_iff by blast
    then show "FacebookPoster_authenticate W token key secret ap self =
      (case FacebookPoster_verify W (FacebookPoster_credentials W token ap self) of
         (Inl e, self') \<Rightarrow>
           (Inl (''Facebook authentication error: '' @ e), self'\<lparr>authenticated := False\<rparr>)
       | (Inr d, self') \<Rightarrow> (Inr d, self'))"
      by (rule FacebookPoster_present)
  qed
  from a b c show ?thesis by (intro conjI)
qed


lemma InstagramPoster_missing_iff:
  "(\<not> truthy_str (access_token (InstagramPoster_credentials W token ap self)) \<or> \<not> truthy (instagram_account_id (InstagramPoster_credentials W token ap self))) =
   (\<not> truthy_str (if truthy_str token then token else getenv W ''INSTAGRAM_ACCESS_TOKEN'') \<or>
       \<not> truthy (instagram_account_id (InstagramPoster_credentials W token ap self)))"
  by (simp add: InstagramPoster_credentials_token)

lemma InstagramPoster_token_contract:
  "(access_token (snd (InstagramPoster_authenticate W token key secret ap self)) =
       (if truthy_str token then token else getenv W ''INSTAGRAM_ACCESS_TOKEN'') \<and>
    ((\<not> truthy_str (if truthy_str token then token else getenv W ''INSTAGRAM_ACCESS_TOKEN'') \<or>
          \<not> truthy (instagram_account_id (InstagramPoster_credentials W token ap self))) \<longrightarrow>
       fst (InstagramPoster_authenticate W token key secret ap self) =
         Inl ''Instagram authentication error: Instagram access token and account ID are required'') \<and>
    ((truthy_str (if truthy_str token then token else getenv W ''INSTAGRAM_ACCESS_TOKEN'') \<and>
          truthy (instagram_account_id (InstagramPoster_credentials W token ap self))) \<longrightarrow>
       InstagramPoster_authenticate W token key secret ap self =
         (case InstagramPoster_verify W (InstagramPoster_credentials W token ap self) of
            (Inl e, self') \<Rightarrow>
              (Inl (''Instagram authentication error: '' @ e), self'\<lparr>authenticated := False\<rparr>)
          | (Inr d, self') \<Rightarrow> (Inr d, self'))))"
proof -
  have a: "access_token (snd (InstagramPoster_authenticate W token key secret ap self)) =
    (if truthy_str token then token else getenv W ''INSTAGRAM_ACCESS_TOKEN'')"
    by (rule InstagramPoster_authenticate_token)
  have b: "(\<not> truthy_str (if truthy_str token then token else getenv W ''INSTAGRAM_ACCESS_TOKEN'') \<or>
       \<not> truthy (instagram_account_id (InstagramPoster_credentials W token ap self))) \<longrightarrow>
    fst (InstagramPoster_authenticate W token key secret ap self) =
      Inl ''Instagram authentication error: Instagram access token and account ID are required''"
  proof
    assume "\<not> truthy_str (if truthy_str token then token else getenv W ''INSTAGRAM_ACCESS_TOKEN'') \<or>
       \<not> truthy (instagram_account_id (InstagramPoster_credentials W token ap self))"
    then have "\<not> truthy_str (access_token (InstagramPoster_credentials W token ap self)) \<or> \<not> truthy (instagram_account_id (InstagramPoster_credentials W token ap self))"
      unfolding InstagramPoster_missing_iff .
    from InstagramPoster_missing [OF this] show "fst (InstagramPoster_authenticate W token key secret ap self) =
      Inl ''Instagram authentication error: Instagram access token and account ID are required''"
      by simp
  qed
  have c: "(truthy_str (if truthy_str token then token else getenv W ''INSTAGRAM_ACCESS_TOKEN'') \<and>
       truthy (instagram_account_id (InstagramPoster_credentials W token ap self))) \<longrightarrow>
    InstagramPoster_authenticate W token key secret ap self =
      (case InstagramPoster_verify W (InstagramPoster_credentials W token ap self) of
         (Inl e, self') \<Rightarrow>
           (Inl (''Instagram authentication error: '' @ e), self'\<lparr>authenticated := False\<rparr>)
       | (Inr d, self') \<Rightarrow> (Inr d, self'))"
  proof
    assume "truthy_str (if truthy_str token then token else getenv W ''INSTAGRAM_ACCESS_TOKEN'') \<and>
       truthy (instagram_account_id (InstagramPoster_credentials W token ap self))"
    then have "\<not> (\<not> truthy_str (access_token (InstagramPoster_credentials W token ap self)) \<or> \<not> truthy (instagram_account_id (InstagramPoster_credentials W token ap self)))"
      unfolding InstagramPoster_missing_iff by blast
    then show "InstagramPoster_authenticate W token key secret ap self =
      (case InstagramPoster_verify W (InstagramPoster_credentials W token ap self) of
         (Inl e, self') \<Rightarrow>
           (Inl (''Instagram authentication error: '' @ e), self'\<lparr>authenticated := False\<rparr>)
       | (Inr d, self') \<Rightarrow> (Inr d, self'))"
      by (rule InstagramPoster_present)
  qed
  from a b c show ?thesis by (intro conjI)
qed


lemma ThreadsPoster_missing_iff:
  "(\<not> truthy_str (access_token (ThreadsPoster_credentials W token ap self)) \<or> \<not> truthy (threads_user_id (ThreadsPoster_credentials W token ap self))) =
   (\<not> truthy_str (if truthy_str token then token else getenv W ''THREADS_ACCESS_TOKEN'') \<or>
       \<not> truthy (threads_user_id (ThreadsPoster_credentials W token ap self)))"
  by (simp add: ThreadsPoster_credentials_token)

lemma ThreadsPoster_token_contract:
  "(access_token (snd (ThreadsPoster_authenticate W token key secret ap self)) =
       (if truthy_str token then token else getenv W ''THREADS_ACCESS_TOKEN'') \<and>
    ((\<not> truthy_str (if truthy_str token then token else getenv W ''THREADS_ACCESS_TOKEN'') \<or>
          \<not> truthy (threads_user_id (ThreadsPoster_credentials W token ap self))) \<longrightarrow>
       fst (ThreadsPoster_authenticate W token key secret ap self) =
         Inl ''Threads authentication error: Threads access token and user ID are required'') \<and>
    ((truthy_str (if truthy_str token then token else getenv W ''THREADS_ACCESS_TOKEN'') \<and>
          truthy (threads_user_id (ThreadsPoster_credentials W token ap self))) \<longrightarrow>
       ThreadsPoster_authenticate W token key secret ap self =
         (case ThreadsPoster_verify W (ThreadsPoster_credentials W token ap self) of
            (Inl e, self') \<Rightarrow>
              (Inl (''Threads authentication error: '' @ e), self'\<lparr>authenticated := False\<rparr>)
          | (Inr d, self') \<Rightarrow> (Inr d, self'))))"
proof -
  have a: "access_token (snd (ThreadsPoster_authenticate W token key secret ap self)) =
    (if truthy_str token then token else getenv W ''THREADS_ACCESS_TOKEN'')"
    by (rule ThreadsPoster_authenticate_token)
  have b: "(\<not> truthy_str (if truthy_str token then token else getenv W ''THREADS_ACCESS_TOKEN'') \<or>
       \<not> truthy (threads_user_id (ThreadsPoster_credentials W token ap self))) \<longrightarrow>
    fst (ThreadsPoster_authenticate W token key secret ap self) =
      Inl ''Threads authentication error: Threads access token and user ID are required''"
  proof
    assume "\<not> truthy_str (if truthy_str token then token else getenv W ''THREADS_ACCESS_TOKEN'') \<or>
       \<not> truthy (threads_user_id (ThreadsPoster_credentials W token ap self))"
    then have "\<not> truthy_str (access_token (ThreadsPoster_credentials W token ap self)) \<or> \<not> truthy (threads_user_id (ThreadsPoster_credentials W token ap self))"
      unfolding ThreadsPoster_missing_iff .
    from ThreadsPoster_missing [OF this] show "fst (ThreadsPoster_authenticate W token key secret ap self) =
      Inl ''Threads authentication error: Threads access token and user ID are required''"
      by simp
  qed
  have c: "(truthy_str (if truthy_str token then token else getenv W ''THREADS_ACCESS_TOKEN'') \<and>
       truthy (threads_user_id (ThreadsPoster_credentials W token ap self))) \<longrightarrow>
    ThreadsPoster_authenticate W token key secret ap self =
      (case ThreadsPoster_verify W (ThreadsPoster_credentials W token ap self) of
         (Inl e, self') \<Rightarrow>
           (Inl (''Threads authentication error: '' @ e), self'\<lparr>authenticated := False\<rparr>)
       | (Inr d, self') \<Rightarrow> (Inr d, self'))"
  proof
    assume "truthy_str (if truthy_str token then token else getenv W ''THREADS_ACCESS_TOKEN'') \<and>
       truthy (threads_user_id (ThreadsPoster_credentials W token ap self))"
    then have "\<not> (\<not> truthy_str (access_token (ThreadsPoster_credentials W token ap self)) \<or> \<not> truthy (threads_user_id (ThreadsPoster_credentials W token ap self)))"
      unfolding ThreadsPoster_missing_iff by blast
    then show "ThreadsPoster_authenticate W token key secret ap self =
      (case ThreadsPoster_verify W (ThreadsPoster_credentials W token ap self) of
         (Inl e, self') \<Rightarrow>
           (Inl (''Threads authentication error: '' @ e), self'\<lparr>authenticated := False\<rparr>)
       | (Inr d, self') \<Rightarrow> (Inr d, self'))"
      by (rule ThreadsPoster_present)
  qed
  from a b c show ?thesis by (intro conjI)
qed


lemma TikTokPoster_missing_iff:
  "(\<not> truthy_str (access_token (TikTokPoster_credentials W token key secret self))) =
   (\<not> truthy_str (if truthy_str token then token else getenv W ''TIKTOK_ACCESS_TOKEN''))"
  by (simp add: TikTokPoster_credentials_token)

lemma TikTokPoster_token_contract:
  "(access_token (snd (TikTokPoster_authenticate W token key secret ap self)) =
       (if truthy_str token then token else getenv W ''TIKTOK_ACCESS_TOKEN'') \<and>
    ((\<not> truthy_str (if truthy_str token then token else getenv W ''TIKTOK_ACCESS_TOKEN'')) \<longrightarrow>
       fst (TikTokPoster_authenticate W token key secret ap self) =
         Inl ''TikTok authentication error: TikTok access token is required'') \<and>
    ((truthy_str (if truthy_str token then token else getenv W ''TIKTOK_ACCESS_TOKEN'')) \<longrightarrow>
       TikTokPoster_authenticate W token key secret ap self =
         (case TikTokPoster_verify W (TikTokPoster_credentials W token key secret self) of
            (Inl e, self') \<Rightarrow>
              (Inl (''TikTok authentication error: '' @ e), self'\<lparr>authenticated := False\<rparr>)
          | (Inr d, self') \<Rightarrow> (Inr d, self'))))"
proof -
  have a: "access_token (snd (TikTokPoster_authenticate W token key secret ap self)) =
    (if truthy_str token then token else getenv W ''TIKTOK_ACCESS_TOKEN'')"
    by (rule TikTokPoster_authenticate_token)
  have b: "(\<not> truthy_str (if truthy_str token then token else getenv W ''TIKTOK_ACCESS_TOKEN'')) \<longrightarrow>
    fst (TikTokPoster_authenticate W token key secret ap self) =
      Inl ''TikTok authentication error: TikTok access token is required''"
  proof
    assume "\<not> truthy_str (if truthy_str token then token else getenv W ''TIKTOK_ACCESS_TOKEN'')"
    then have "\<not> truthy_str (access_token (TikTokPoster_credentials W token key secret self))"
      unfolding TikTokPoster_missing_iff .
    from TikTokPoster_missing [OF this] show "fst (TikTokPoster_authenticate W token key secret ap self) =
      Inl ''TikTok authentication error: TikTok access token is required''"
      by simp
  qed
  have c: "(truthy_str (if truthy_str token then token else getenv W ''TIKTOK_ACCESS_TOKEN'')) \<longrightarrow>
    TikTokPoster_authenticate W token key secret ap self =
      (case TikTokPoster_verify W (TikTokPoster_credentials W token key secret self) of
         (Inl e, self') \<Rightarrow>
           (Inl (''TikTok authentication error: '' @ e), self'\<lparr>authenticated := False\<rparr>)
       | (Inr d, self') \<Rightarrow> (Inr d, self'))"
  proof
    assume "truthy_str (if truthy_str token then token else getenv W ''TIKTOK_ACCESS_TOKEN'')"
    then have "\<not> (\<not> truthy_str (access_token (TikTokPoster_credentials W token key secret self)))"
      unfolding TikTokPoster_missing_iff by blast
    then show "TikTokPoster_authenticate W token key secret ap self =
      (case TikTokPoster_verify W (TikTokPoster_credentials W token key secret self) of
         (Inl e, self') \<Rightarrow>
           (Inl (''TikTok authentication error: '' @ e), self'\<lparr>authenticated := False\<rparr>)
       | (Inr d, self') \<Rightarrow> (Inr d, self'))"
      by (rule TikTokPoster_present)
  qed
  from a b c show ?thesis by (intro conjI)
qed


lemma XPoster_missing_iff:
  "(\<not> truthy_str (bearer_token (XPoster_credentials W token key secret self)) \<and> \<not> (truthy_str (access_token (XPoster_credentials W token key secret self)) \<and> truthy_str (access_token_secret (XPoster_credentials W token key secret self)))) =
   (\<not> truthy_str (if truthy_str (bearer_token self) then bearer_token self
                       else getenv W ''X_BEARER_TOKEN'') \<and>
       \<not> (truthy_str (if truthy_str token then token else getenv W ''X_ACCESS_TOKEN'') \<and>
          truthy_str (getenv W ''X_ACCESS_TOKEN_SECRET'')))"
  by (simp add: XPoster_credentials_token XPoster_credentials_def or_str_def)

lemma XPoster_token_contract:
  "(access_token (snd (XPoster_authenticate W token key secret ap self)) =
       (if truthy_str token then token else getenv W ''X_ACCESS_TOKEN'') \<and>
    ((\<not> truthy_str (if truthy_str (bearer_token self) then bearer_token self
                          else getenv W ''X_BEARER_TOKEN'') \<and>
          \<not> (truthy_str (if truthy_str token then token else getenv W ''X_ACCESS_TOKEN'') \<and>
             truthy_str (getenv W ''X_ACCESS_TOKEN_SECRET''))) \<longrightarrow>
       fst (XPoster_authenticate W token key secret ap self) =
         Inl ''X authentication error: X API requires bearer token or access tokens'') \<and>
    ((truthy_str (if truthy_str (bearer_token self) then bearer_token self
                        else getenv W ''X_BEARER_TOKEN'') \<or>
          truthy_str (if truthy_str token then token else getenv W ''X_ACCESS_TOKEN'') \<and>
          truthy_str (getenv W ''X_ACCESS_TOKEN_SECRET'')) \<longrightarrow>
       XPoster_authenticate W token key secret ap self =
         (case XPoster_verify W (XPoster_credentials W token key secret self) of
            (Inl e, self') \<Rightarrow>
              (Inl (''X authentication error: '' @ e), self'\<lparr>authenticated := False\<rparr>)
          | (Inr d, self') \<Rightarrow> (Inr d, self'))))"
proof -
  have a: "access_token (snd (XPoster_authenticate W token key secret ap self)) =
    (if truthy_str token then token else getenv W ''X_ACCESS_TOKEN'')"
    by (rule XPoster_authenticate_token)
  have b: "(\<not> truthy_str (if truthy_str (bearer_token self) then bearer_token self
                       else getenv W ''X_BEARER_TOKEN'') \<and>
       \<not> (truthy_str (if truthy_str token then token else getenv W ''X_ACCESS_TOKEN'') \<and>
          truthy_str (getenv W ''X_ACCESS_TOKEN_SECRET''))) \<longrightarrow>
    fst (XPoster_authenticate W token key secret ap self) =
      Inl ''X authentication error: X API requires bearer token or access tokens''"
  proof
    assume "\<not> truthy_str (if truthy_str (bearer_token self) then bearer_token self
                       else getenv W ''X_BEARER_TOKEN'') \<and>
       \<not> (truthy_str (if truthy_str token then token else getenv W ''X_ACCESS_TOKEN'') \<and>
          truthy_str (getenv W ''X_ACCESS_TOKEN_SECRET''))"
    then have "\<not> truthy_str (bearer_token (XPoster_credentials W token key secret self)) \<and> \<not> (truthy_str (access_token (XPoster_credentials W token key secret self)) \<and> truthy_str (access_token_secret (XPoster_credentials W token key secret self)))"
      unfolding XPoster_missing_iff .
    from XPoster_missing [OF this] show "fst (XPoster_authenticate W token key secret ap self) =
      Inl ''X authentication error: X API requires bearer token or access tokens''"
      by simp
  qed
  have c: "(truthy_str (if truthy_str (bearer_token self) then bearer_token self
                     else getenv W ''X_BEARER_TOKEN'') \<or>
       truthy_str (if truthy_str token then token else getenv W ''X_ACCESS_TOKEN'') \<and>
       truthy_str (getenv W ''X_ACCESS_TOKEN_SECRET'')) \<longrightarrow>
    XPoster_authenticate W token key secret ap self =
      (case XPoster_verify W (XPoster_credentials W token key secret self) of
         (Inl e, self') \<Rightarrow>
           (Inl (''X authentication error: '' @ e), self'\<lparr>authenticated := False\<rparr>)
       | (Inr d, self') \<Rightarrow> (Inr d, self'))"
  proof
    assume "truthy_str (if truthy_str (bearer_token self) then bearer_token self
                     else getenv W ''X_BEARER_TOKEN'') \<or>
       truthy_str (if truthy_str token then token else getenv W ''X_ACCESS_TOKEN'') \<and>
       truthy_str (getenv W ''X_ACCESS_TOKEN_SECRET'')"
    then have "\<not> (\<not> truthy_str (bearer_token (XPoster_credentials W token key secret self)) \<and> \<not> (truthy_str (access_token (XPoster_credentials W token key secret self)) \<and> truthy_str (access_token_secret (XPoster_credentials W token key secret self))))"
      unfolding XPoster_missing_iff by blast
    then show "XPoster_authenticate W token key secret ap self =
      (case XPoster_verify W (XPoster_credentials W token key secret self) of
         (Inl e, self') \<Rightarrow>
           (Inl (''X authentication error: '' @ e), self'\<lparr>authenticated := False\<rparr>)
       | (Inr d, self') \<Rightarrow> (Inr d, self'))"
      by (rule XPoster_present)
  qed
  from a b c show ?thesis by (intro conjI)
qed


lemma YouTubePoster_missing_iff:
  "(\<not> truthy_str (access_token (YouTubePoster_credentials W token key self))) =
   (\<not> truthy_str (if truthy_str token then token else getenv W ''YOUTUBE_ACCESS_TOKEN''))"
  by (simp add: YouTubePoster_credentials_token)

lemma YouTubePoster_token_contract:
  "(access_token (snd (YouTubePoster_authenticate W token key secret ap self)) =
       (if truthy_str token then token else getenv W ''YOUTUBE_ACCESS_TOKEN'') \<and>
    ((\<not> truthy_str (if truthy_str token then token else getenv W ''YOUTUBE_ACCESS_TOKEN'')) \<longrightarrow>
       fst (YouTubePoster_authenticate W token key secret ap self) =
         Inl ''YouTube authentication error: YouTube access token is required'') \<and>
    ((truthy_str (if truthy_str token then token else getenv W ''YOUTUBE_ACCESS_TOKEN'')) \<longrightarrow>
       YouTubePoster_authenticate W token key secret ap self =
         (case YouTubePoster_verify W (YouTubePoster_credentials W token key self) of
            (Inl e, self') \<Rightarrow>
              (Inl (''YouTube authentication error: '' @ e), self'\<lparr>authenticated := False\<rparr>)
          | (Inr d, self') \<Rightarrow> (Inr d, self'))))"
proof -
  have a: "access_token (snd (YouTubePoster_authenticate W token key secret ap self)) =
    (if truthy_str token then token else getenv W ''YOUTUBE_ACCESS_TOKEN'')"
    by (rule YouTubePoster_authenticate_token)
  have b: "(\<not> truthy_str (if truthy_str token then token else getenv W ''YOUTUBE_ACCESS_TOKEN'')) \<longrightarrow>
    fst (YouTubePoster_authenticate W token key secret ap self) =
      Inl ''YouTube authentication error: YouTube access token is required''"
  proof
    assume "\<not> truthy_str (if truthy_str token then token else getenv W ''YOUTUBE_ACCESS_TOKEN'')"
    then have "\<not> truthy_str (access_token (YouTubePoster_credentials W token key self))"
      unfolding YouTubePoster_missing_iff .
    from YouTubePoster_missing [OF this] show "fst (YouTubePoster_authenticate W token key secret ap self) =
      Inl ''YouTube authentication error: YouTube access token is required''"
      by simp
  qed
  have c: "(truthy_str (if truthy_str token then token else getenv W ''YOUTUBE_ACCESS_TOKEN'')) \<longrightarrow>
    YouTubePoster_authenticate W token key secret ap self =
      (case YouTubePoster_verify W (YouTubePoster_credentials W token key self) of
         (Inl e, self') \<Rightarrow>
           (Inl (''YouTube authentication error: '' @ e), self'\<lparr>authenticated := False\<rparr>)
       | (Inr d, self') \<Rightarrow> (Inr d, self'))"
  proof
    assume "truthy_str (if truthy_str token then token else getenv W ''YOUTUBE_ACCESS_TOKEN'')"
    then have "\<not> (\<not> truthy_str (access_token (YouTubePoster_credentials W token key self)))"
      unfolding YouTubePoster_missing_iff by blast
    then show "YouTubePoster_authenticate W token key secret ap self =
      (case YouTubePoster_verify W (YouTubePoster_credentials W token key self) of
         (Inl e, self') \<Rightarrow>
           (Inl (''YouTube authentication error: '' @ e), self'\<lparr>authenticated := False\<rparr>)
       | (Inr d, self') \<Rightarrow> (Inr d, self'))"
      by (rule YouTubePoster_present)
  qed
  from a b c show ?thesis by (intro conjI)
qed

section \<open>The YouTube title and description\<close>








section \<open>The Facebook payload\<close>







section \<open>The credential check of config.py\<close>

lemma is_not_None_iff: "is_not_None v = (v \<noteq> None)"
  by (simp add: is_not_None_def split: option.splits)

lemma validate_credentials_cases:
  "validate_credentials cls p =
     (if p = ''facebook'' then FACEBOOK_ACCESS_TOKEN cls \<noteq> None
      else if p = ''instagram''
        then INSTAGRAM_ACCESS_TOKEN cls \<noteq> None \<and> INSTAGRAM_ACCOUNT_ID cls \<noteq> None
      else if p = ''tiktok'' then TIKTOK_ACCESS_TOKEN cls \<noteq> None
      else if p = ''x''
        then X_BEARER_TOKEN cls \<noteq> None \<or>
             (X_ACCESS_TOKEN cls \<noteq> None \<and> X_ACCESS_TOKEN_SECRET cls \<noteq> None)
      else if p = ''threads''
        then THREADS_ACCESS_TOKEN cls \<noteq> None \<and> THREADS_USER_ID cls \<noteq> None
      else if p = ''youtube'' then YOUTUBE_ACCESS_TOKEN cls \<noteq> None
      else False)"
  unfolding validate_credentials_def Let_def is_not_None_iff map_of.simps fun_upd_def
  by (simp only: fst_conv snd_conv if_distrib [of "case_option False (\<lambda>b. b)"]
        option.case if_False if_True cong: if_cong)

text \<open>
  Claim C7.  \<open>validate_credentials\<close> holds of a platform exactly under its rule: the
  access token for Facebook, TikTok and YouTube; the access token and the account or user
  id for Instagram and Threads; the bearer token, or the access token with its secret, for
  X; never for another name.  \<open>get_available_platforms\<close> lists the platforms, of the six,
  of which it holds.
\<close>

theorem credential_presence_rules:
  "(validate_credentials cls ''facebook'' \<longleftrightarrow> FACEBOOK_ACCESS_TOKEN cls \<noteq> None) \<and>
   (validate_credentials cls ''tiktok'' \<longleftrightarrow> TIKTOK_ACCESS_TOKEN cls \<noteq> None) \<and>
   (validate_credentials cls ''youtube'' \<longleftrightarrow> YOUTUBE_ACCESS_TOKEN cls \<noteq> None) \<and>
   (validate_credentials cls ''instagram'' \<longleftrightarrow>
      INSTAGRAM_ACCESS_TOKEN cls \<noteq> None \<and> INSTAGRAM_ACCOUNT_ID cls \<noteq> None) \<and>
   (validate_credentials cls ''threads'' \<longleftrightarrow>
      THREADS_ACCESS_TOKEN cls \<noteq> None \<and> THREADS_USER_ID cls \<noteq> None) \<and>
   (validate_credentials cls ''x'' \<longleftrightarrow>
      X_BEARER_TOKEN cls \<noteq> None \<or>
      (X_ACCESS_TOKEN cls \<noteq> None \<and> X_ACCESS_TOKEN_SECRET cls \<noteq> None)) \<and>
   (p \<notin> set [''facebook'', ''instagram'', ''tiktok'', ''x'', ''threads'', ''youtube''] \<longrightarrow>
      \<not> validate_credentials cls p) \<and>
   set (get_available_platforms cls) =
     {p. p \<in> set [''facebook'', ''instagram'', ''tiktok'', ''x'', ''threads'', ''youtube''] \<and>
         validate_credentials cls p}"
proof -
  have a: "validate_credentials cls ''facebook'' \<longleftrightarrow> FACEBOOK_ACCESS_TOKEN cls \<noteq> None"
    by (simp add: validate_credentials_cases)
  have b: "validate_credentials cls ''tiktok'' \<longleftrightarrow> TIKTOK_ACCESS_TOKEN cls \<noteq> None"
    by (simp add: validate_credentials_cases)
  have c: "validate_credentials cls ''youtube'' \<longleftrightarrow> YOUTUBE_ACCESS_TOKEN cls \<noteq> None"
    by (simp add: validate_credentials_cases)
  have d: "validate_credentials cls ''instagram'' \<longleftrightarrow>
      INSTAGRAM_ACCESS_TOKEN cls \<noteq> None \<and> INSTAGRAM_ACCOUNT_ID cls \<noteq> None"
    by (simp add: validate_credentials_cases)
  have e: "validate_credentials cls ''threads'' \<longleftrightarrow>
      THREADS_ACCESS_TOKEN cls \<noteq> None \<and> THREADS_USER_ID cls \<noteq> None"
    by (simp add: validate_credentials_cases)
  have f: "validate_credentials cls ''x'' \<longleftrightarrow>
      X_BEARER_TOKEN cls \<noteq> None \<or>
      (X_ACCESS_TOKEN cls \<noteq> None \<and> X_ACCESS_TOKEN_SECRET cls \<noteq> None)"
    by (simp add: validate_credentials_cases)
  have g: "p \<notin> set [''facebook'', ''instagram'', ''tiktok'', ''x'', ''threads'', ''youtube''] \<longrightarrow>
      \<not> validate_credentials cls p"
    by (simp add: validate_credentials_cases)
  have h: "set (get_available_platforms cls) =
     {p. p \<in> set [''facebook'', ''instagram'', ''tiktok'', ''x'', ''threads'', ''youtube''] \<and>
         validate_credentials cls p}"
    unfolding get_available_platforms_def by (rule set_filter)
  from a b c d e f g h show ?thesis by (intro conjI)
qed

text \<open>
  An environment with the Facebook token, the X bearer token, the Instagram token without
  the account id and the Threads user id without the token.
\<close>

lemma demo_config:
  "FACEBOOK_ACCESS_TOKEN (Config_load (map_of demo_env)) = Some ''t1''"
  "INSTAGRAM_ACCESS_TOKEN (Config_load (map_of demo_env)) = Some ''t2''"
  "INSTAGRAM_ACCOUNT_ID (Config_load (map_of demo_env)) = None"
  "X_BEARER_TOKEN (Config_load (map_of demo_env)) = Some ''t3''"
  "THREADS_ACCESS_TOKEN (Config_load (map_of demo_env)) = None"
  by (simp_all add: Config_load_def demo_env_def)

theorem credential_presence_rules_witness:
  "validate_credentials (Config_load (map_of demo_env)) ''facebook'' \<and>
   validate_credentials (Config_load (map_of demo_env)) ''x'' \<and>
   \<not> validate_credentials (Config_load (map_of demo_env)) ''instagram'' \<and>
   \<not> validate_credentials (Config_load (map_of demo_env)) ''threads'' \<and>
   \<not> validate_credentials (Config_load (map_of demo_env)) ''bogus''"
proof -
  have "''bogus'' \<notin> set [''facebook'', ''instagram'', ''tiktok'', ''x'', ''threads'', ''youtube'']"
    by simp
  then show ?thesis
    using credential_presence_rules [of "Config_load (map_of demo_env)" "''bogus''"]
    by (simp only: demo_config) simp
qed

section \<open>The authenticated flag\<close>


text \<open>The unfolding of the adapters and test doubles, for concrete runs.\<close>

lemmas demo_eval =
  demo_world_def demo_body_def demo_token_env_def
  FacebookPoster_init_def FacebookPoster_credentials_def FacebookPoster_me_def
  FacebookPoster_verify_def FacebookPoster_authenticate_def authentication_error_def
  FacebookPoster_post_data_def FacebookPoster_endpoint_def FacebookPoster_publish_def
  FacebookPoster_create_post_def
  InstagramPoster_init_def InstagramPoster_credentials_def InstagramPoster_authenticate_def
  or_str_def py_or_def truthy_str_def truthy_def of_opt_def has_key_def subscript_def
  py_get_def py_str_def dict_get_def Let_def


section \<open>The precedence of the access token\<close>

text \<open>
  Claim C4, as amended.  For each of the six adapters \<open>authenticate\<close> leaves as access
  token the token passed when that is a non-empty string, and the platform's
  \<open>..._ACCESS_TOKEN\<close> environment variable otherwise.  The missing-credentials error is
  raised: by Facebook, TikTok and YouTube when that token is missing; by Instagram and
  Threads when that token or the account (user) id is missing; by X when there is no
  bearer token and the token or its secret is missing.  In every other case the outcome
  is that of the verification call.
\<close>

theorem access_token_precedence:
  "(access_token (snd (FacebookPoster_authenticate W token key secret ap fb)) =
       (if truthy_str token then token else getenv W ''FACEBOOK_ACCESS_TOKEN'') \<and>
    ((\<not> truthy_str (if truthy_str token then token else getenv W ''FACEBOOK_ACCESS_TOKEN'')) \<longrightarrow>
       fst (FacebookPoster_authenticate W token key secret ap fb) =
         Inl ''Facebook authentication error: Facebook access token is required'') \<and>
    ((truthy_str (if truthy_str token then token else getenv W ''FACEBOOK_ACCESS_TOKEN'')) \<longrightarrow>
       FacebookPoster_authenticate W token key secret ap fb =
         (case FacebookPoster_verify W (FacebookPoster_credentials W token ap fb) of
            (Inl e, self') \<Rightarrow>
              (Inl (''Facebook authentication error: '' @ e), self'\<lparr>authenticated := False\<rparr>)
          | (Inr d, self') \<Rightarrow> (Inr d, self')))) \<and>
   (access_token (snd (InstagramPoster_authenticate W token key secret ap ig)) =
       (if truthy_str token then token else getenv W ''INSTAGRAM_ACCESS_TOKEN'') \<and>
    ((\<not> truthy_str (if truthy_str token then token else getenv W ''INSTAGRAM_ACCESS_TOKEN'') \<or>
          \<not> truthy (instagram_account_id (InstagramPoster_credentials W token ap ig))) \<longrightarrow>
       fst (InstagramPoster_authenticate W token key secret ap ig) =
         Inl ''Instagram authentication error: Instagram access token and account ID are required'') \<and>
    ((truthy_str (if truthy_str token then token else getenv W ''INSTAGRAM_ACCESS_TOKEN'') \<and>
          truthy (instagram_account_id (InstagramPoster_credentials W token ap ig))) \<longrightarrow>
       InstagramPoster_authenticate W token key secret ap ig =
         (case InstagramPoster_verify W (InstagramPoster_credentials W token ap ig) of
            (Inl e, self') \<Rightarrow>
              (Inl (''Instagram authentication error: '' @ e), self'\<lparr>authenticated := False\<rparr>)
          | (Inr d, self') \<Rightarrow> (Inr d, self')))) \<and>
   (access_token (snd (ThreadsPoster_authenticate W token key secret ap th)) =
       (if truthy_str token then token else getenv W ''THREADS_ACCESS_TOKEN'') \<and>
    ((\<not> truthy_str (if truthy_str token then token else getenv W ''THREADS_ACCESS_TOKEN'') \<or>
          \<not> truthy (threads_user_id (ThreadsPoster_credentials W token ap th))) \<longrightarrow>
       fst (ThreadsPoster_authenticate W token key secret ap th) =
         Inl ''Threads authentication error: Threads access token and user ID are required'') \<and>
    ((truthy_str (if truthy_str token then token else getenv W ''THREADS_ACCESS_TOKEN'') \<and>
          truthy (threads_user_id (ThreadsPoster_credentials W token ap th))) \<longrightarrow>
       ThreadsPoster_authenticate W token key secret ap th =
         (case ThreadsPoster_verify W (ThreadsPoster_credentials W token ap th) of
            (Inl e, self') \<Rightarrow>
              (Inl (''Threads authentication error: '' @ e), self'\<lparr>authenticated := False\<rparr>)
          | (Inr d, self') \<Rightarrow> (Inr d, self')))) \<and>
   (access_token (snd (TikTokPoster_authenticate W token key secret ap tt)) =
       (if truthy_str token then token else getenv W ''TIKTOK_ACCESS_TOKEN'') \<and>
    ((\<not> truthy_str (if truthy_str token then token else getenv W ''TIKTOK_ACCESS_TOKEN'')) \<longrightarrow>
       fst (TikTokPoster_authenticate W token key secret ap tt) =
         Inl ''TikTok authentication error: TikTok access token is required'') \<and>
    ((truthy_str (if truthy_str token then token else getenv W ''TIKTOK_ACCESS_TOKEN'')) \<longrightarrow>
       TikTokPoster_authenticate W token key secret ap tt =
         (case TikTokPoster_verify W (TikTokPoster_credentials W token key secret tt) of
            (Inl e, self') \<Rightarrow>
              (Inl (''TikTok authentication error: '' @ e), self'\<lparr>authenticated := False\<rparr>)
          | (Inr d, self') \<Rightarrow> (Inr d, self')))) \<and>
   (access_token (snd (XPoster_authenticate W token key secret ap xp)) =
       (if truthy_str token then token else getenv W ''X_ACCESS_TOKEN'') \<and>
    ((\<not> truthy_str (if truthy_str (bearer_token xp) then bearer_token xp
                          else getenv W ''X_BEARER_TOKEN'') \<and>
          \<not> (truthy_str (if truthy_str token then token else getenv W ''X_ACCESS_TOKEN'') \<and>
             truthy_str (getenv W ''X_ACCESS_TOKEN_SECRET''))) \<longrightarrow>
       fst (XPoster_authenticate W token key secret ap xp) =
         Inl ''X authentication error: X API requires bearer token or access tokens'') \<and>
    ((truthy_str (if truthy_str (bearer_token xp) then bearer_token xp
                        else getenv W ''X_BEARER_TOKEN'') \<or>
          truthy_str (if truthy_str token then token else getenv W ''X_ACCESS_TOKEN'') \<and>
          truthy_str (getenv W ''X_ACCESS_TOKEN_SECRET'')) \<longrightarrow>
       XPoster_authenticate W token key secret ap xp =
         (case XPoster_verify W (XPoster_credentials W token key secret xp) of
            (Inl e, self') \<Rightarrow>
              (Inl (''X authentication error: '' @ e), self'\<lparr>authenticated := False\<rparr>)
          | (Inr d, self') \<Rightarrow> (Inr d, self')))) \<and>
   (access_token (snd (YouTubePoster_authenticate W token key secret ap yt)) =
       (if truthy_str token then token else getenv W ''YOUTUBE_ACCESS_TOKEN'') \<and>
    ((\<not> truthy_str (if truthy_str token then token else getenv W ''YOUTUBE_ACCESS_TOKEN'')) \<longrightarrow>
       fst (YouTubePoster_authenticate W token key secret ap yt) =
         Inl ''YouTube authentication error: YouTube access token is required'') \<and>
    ((truthy_str (if truthy_str token then token else getenv W ''YOUTUBE_ACCESS_TOKEN'')) \<longrightarrow>
       YouTubePoster_authenticate W token key secret ap yt =
         (case YouTubePoster_verify W (YouTubePoster_credentials W token key yt) of
            (Inl e, self') \<Rightarrow>
              (Inl (''YouTube authentication error: '' @ e), self'\<lparr>authenticated := False\<rparr>)
          | (Inr d, self') \<Rightarrow> (Inr d, self'))))"
  by (rule conjI [OF FacebookPoster_token_contract conjI [OF InstagramPoster_token_contract conjI [OF ThreadsPoster_token_contract conjI [OF TikTokPoster_token_contract conjI [OF XPoster_token_contract YouTubePoster_token_contract]]]]])

text \<open>
  The Facebook adapter with a token passed, with the token of the environment only, and
  with neither.
\<close>

theorem access_token_precedence_witness:
  "access_token (snd (FacebookPoster_authenticate (demo_world demo_token_env 200 demo_body)
      (Some ''explicit'') None None None
      (FacebookPoster_init (demo_world demo_token_env 200 demo_body)))) = Some ''explicit'' \<and>
   access_token (snd (FacebookPoster_authenticate (demo_world demo_token_env 200 demo_body)
      None None None None
      (FacebookPoster_init (demo_world demo_token_env 200 demo_body)))) = Some ''fromenv'' \<and>
   fst (FacebookPoster_authenticate (demo_world [] 200 demo_body) None None None None
      (FacebookPoster_init (demo_world [] 200 demo_body))) =
     Inl ''Facebook authentication error: Facebook access token is required''"
proof -
  let ?W = "demo_world demo_token_env 200 demo_body"
  let ?E = "demo_world [] 200 demo_body"
  have a: "access_token (snd (FacebookPoster_authenticate ?W (Some ''explicit'') None None None
             (FacebookPoster_init ?W))) = Some ''explicit''"
    using access_token_precedence
            [where W = ?W and token = "Some ''explicit''" and key = None and secret = None
               and ap = None and fb = "FacebookPoster_init ?W", THEN conjunct1, THEN conjunct1]
    by (simp add: truthy_str_def truthy_def of_opt_def)
  have b: "access_token (snd (FacebookPoster_authenticate ?W None None None None
             (FacebookPoster_init ?W))) = Some ''fromenv''"
    using access_token_precedence
            [where W = ?W and token = None and key = None and secret = None
               and ap = None and fb = "FacebookPoster_init ?W", THEN conjunct1, THEN conjunct1]
    by (simp add: truthy_str_def truthy_def of_opt_def demo_world_def demo_token_env_def)
  have c: "fst (FacebookPoster_authenticate ?E None None None None (FacebookPoster_init ?E)) =
     Inl ''Facebook authentication error: Facebook access token is required''"
    using access_token_precedence
            [where W = ?E and token = None and key = None and secret = None
               and ap = None and fb = "FacebookPoster_init ?E", THEN conjunct1, THEN conjunct2, THEN conjunct1]
    by (simp add: truthy_str_def truthy_def of_opt_def demo_world_def)
  from a b c show ?thesis by (intro conjI)
qed

text \<open>
  Claim C4 as stated fails: the Instagram adapter, given a token, raises the
  missing-credentials error when no account id is configured; and a token the Facebook
  adapter has kept from an earlier call is not consulted when none is passed and the
  environment holds none.
\<close>

theorem access_token_precedence_counterexample:
  "truthy_str (Some ''tok'') \<and>
   fst (InstagramPoster_authenticate (demo_world [] 200 demo_body) (Some ''tok'') None None None
      (InstagramPoster_init (demo_world [] 200 demo_body))) =
     Inl ''Instagram authentication error: Instagram access token and account ID are required'' \<and>
   fst (FacebookPoster_authenticate (demo_world [] 200 demo_body) None None None None
      ((FacebookPoster_init (demo_world [] 200 demo_body))\<lparr>access_token := Some ''stored''\<rparr>)) =
     Inl ''Facebook authentication error: Facebook access token is required''"
  by (simp add: demo_eval)

end
